theory Spec2Isabelle
  imports Main
begin

section \<open>Strings, attributed nodes and diagnostics\<close>

text \<open>
  The generator works on DOH objects: strings that are appended to, and hash nodes with
  string attributes. A node keeps its string attributes in a map; its parameter list, its
  base-class list and its children are kept beside the map. A missing attribute is
  \<open>None\<close>, as \<open>Getattr\<close> returns a null pointer for it.
\<close>

type_synonym attrs = "string \<rightharpoonup> string"

datatype node = Node (attrs: attrs) (parms: "attrs list") (bases: "node list option")
  (children: "node list")

definition Getattr :: "node \<Rightarrow> string \<Rightarrow> string option" where
  "Getattr n k = attrs n k"

definition Checkattr :: "node \<Rightarrow> string \<Rightarrow> string \<Rightarrow> bool" where
  "Checkattr n k v = (attrs n k = Some v)"

definition Setattr :: "node \<Rightarrow> string \<Rightarrow> string \<Rightarrow> node" where
  "Setattr n k v = Node ((attrs n)(k \<mapsto> v)) (parms n) (bases n) (children n)"

text \<open>
  \<open>Printv\<close> takes a null-terminated argument list: it appends its arguments up to the first
  null pointer, so a null argument in the middle of a call cuts the rest of the call off.
\<close>

fun Printv_args :: "string option list \<Rightarrow> string" where
  "Printv_args [] = []"
| "Printv_args (None # rest) = []"
| "Printv_args (Some s # rest) = s @ Printv_args rest"

definition Printv :: "string \<Rightarrow> string option list \<Rightarrow> string" where
  "Printv buf args = buf @ Printv_args args"

text \<open>A null pointer formatted with \<open>%s\<close> prints nothing.\<close>

definition str_of :: "string option \<Rightarrow> string" where
  "str_of s = (case s of None \<Rightarrow> [] | Some t \<Rightarrow> t)"

datatype warn_code = WARN_C_UNSUPPORTTED | WARN_C_TYPEMAP_CTYPE_UNDEF | WARN_TYPEMAP_IN_UNDEF
  | WARN_TYPEMAP_OUT_UNDEF

datatype diagnostic = Swig_warning warn_code string | Swig_error string

abbreviation nl :: string where
  "nl \<equiv> [CHR 0x0A]"

definition cindent :: string where
  "cindent = ''  ''"

section \<open>The C++ facade: shared sections and per-class state\<close>

text \<open>
  The typemap engine, the type classifier, the typedef table, the name manglers and the
  printer of wrapper functions live outside this module. Their results are taken as given:
  \<open>lookup_cxx_ret_type\<close> and \<open>lookup_cxx_parm_type\<close> stand for the type descriptions
  that the module obtains from the \<open>ctype\<close> typemap of a node or of a parameter,
  \<open>ctype_lookup\<close> for the \<open>ctype\<close> typemap of a node, \<open>substituteResolvedType\<close> for
  the text of a typemap after its special variables are replaced, \<open>cppresult_decl\<close>,
  \<open>emit_parameter_variables\<close> and \<open>emit_return_variable\<close> for the local variables of a
  wrapper, \<open>emit_action\<close> for the call of the wrapped function with its exception handling,
  \<open>Swig_typemap_lookup_out\<close> for the \<open>out\<close> typemap of a function with a given action,
  and \<open>Wrapper_print\<close> for the printed form of a wrapper.
\<close>

datatype T_code = T_VOID | T_VARARGS | T_BOOL | T_CHAR | T_OTHER

record type_desc =
  td_type :: "string option"
  wrap_start :: string
  wrap_end :: string

definition set_void_type :: type_desc where
  "set_void_type = \<lparr>td_type = Some ''void'', wrap_start = [], wrap_end = []\<rparr>"

definition is_void :: "type_desc \<Rightarrow> bool" where
  "is_void d = (td_type d = Some ''void'')"

text \<open>A wrapper function under construction: its head, its local variables and its code.\<close>

record Wrapper =
  wrapper_def :: string
  wrapper_locals :: "string list"
  wrapper_code :: string

record env =
  SwigType_type :: "string option \<Rightarrow> T_code"
  lookup_cxx_ret_type :: "node \<Rightarrow> type_desc"
  lookup_cxx_parm_type :: "attrs \<Rightarrow> type_desc"
  Swig_scopename_last :: "string \<Rightarrow> string"
  Swig_scopename_prefix :: "string \<Rightarrow> string option"
  Swig_string_mangle :: "string \<Rightarrow> string"
  Swig_name_type :: "string \<Rightarrow> string"
  classLookup :: "string \<Rightarrow> node option"
  escape :: "string \<Rightarrow> string"
  SwigType_typedef_resolve_all :: "string \<Rightarrow> string option"
  Swig_name_mangle :: "string \<Rightarrow> string"
  SwigType_str :: "string \<Rightarrow> string"
  SwigType_lstr :: "string \<Rightarrow> string"
  ctype_lookup :: "node \<Rightarrow> string option"
  substituteResolvedType :: "string option \<Rightarrow> string \<Rightarrow> string"
  cppresult_decl :: "string option \<Rightarrow> string"
  emit_parameter_variables :: "attrs list \<Rightarrow> string list"
  emit_return_variable :: "node \<Rightarrow> string \<Rightarrow> string list"
  emit_action :: "node \<Rightarrow> string"
  Swig_typemap_lookup_out :: "node \<Rightarrow> string \<Rightarrow> string option"
  Wrapper_print :: "Wrapper \<Rightarrow> string"

text \<open>
  \<open>cxx_wrappers\<close>: the three output sections of the facade are null until \<open>initialize\<close>
  has run; the exception-check strings are set by \<open>initialize_exceptions\<close>.
\<close>

record cxx_wrappers =
  except_check_start :: string
  except_check_end :: string
  sect_types :: "string option"
  sect_decls :: "string option"
  sect_impls :: "string option"

definition is_initialized :: "cxx_wrappers \<Rightarrow> bool" where
  "is_initialized cxx = (sect_types cxx \<noteq> None)"

definition Printv_sect :: "string option \<Rightarrow> string option list \<Rightarrow> string option" where
  "Printv_sect sect args = map_option (\<lambda>buf. Printv buf args) sect"

record cxx_class_wrapper =
  class_node :: "node option"
  first_base :: "node option"
  has_copy_ctor :: bool

text \<open>
  The loop of the constructor over the base list: ignored bases are skipped, the first
  usable one is kept, and a second usable one stops the loop (the flag of the result).
\<close>

fun base_loop :: "node list \<Rightarrow> node option \<Rightarrow> node option \<times> bool" where
  "base_loop [] fb = (fb, False)"
| "base_loop (b # bs) fb =
     (if Checkattr b ''feature:ignore'' ''1'' then base_loop bs fb
      else if fb \<noteq> None then (fb, True)
      else base_loop bs (Some b))"

definition multiple_inheritance_warning :: "node \<Rightarrow> diagnostic" where
  "multiple_inheritance_warning n = Swig_warning WARN_C_UNSUPPORTTED
     (''Multiple inheritance not supported yet, skipping C++ wrapper generation for '' @
      str_of (Getattr n ''sym:name'') @ nl)"

definition open_class :: "cxx_wrappers \<Rightarrow> node \<Rightarrow> node option \<Rightarrow> string \<Rightarrow> cxx_wrappers" where
  "open_class cxx n fb base_classes =
     cxx\<lparr>sect_types := Printv_sect (sect_types cxx)
            [Some ''class '', Getattr n ''sym:name'', Some ('';'' @ nl)],
         sect_decls := Printv_sect (sect_decls cxx)
            [Some ''class '', Getattr n ''sym:name'', Some base_classes,
             Some ('' {'' @ nl @ ''public:'' @ nl)]\<rparr>"

definition cxx_class_wrapper_ctor ::
  "cxx_wrappers \<Rightarrow> diagnostic list \<Rightarrow> node \<Rightarrow> cxx_class_wrapper \<times> cxx_wrappers \<times> diagnostic list"
where
  "cxx_class_wrapper_ctor cxx diags n =
     (if \<not> is_initialized cxx
      then (\<lparr>class_node = None, first_base = None, has_copy_ctor = False\<rparr>, cxx, diags)
      else case bases n of
        None \<Rightarrow>
          (\<lparr>class_node = Some n, first_base = None, has_copy_ctor = False\<rparr>,
           open_class cxx n None [], diags)
      | Some baselist \<Rightarrow>
          (case base_loop baselist None of
             (fb, True) \<Rightarrow>
               (\<lparr>class_node = None, first_base = fb, has_copy_ctor = False\<rparr>, cxx,
                diags @ [multiple_inheritance_warning n])
           | (fb, False) \<Rightarrow>
               (\<lparr>class_node = Some n, first_base = fb, has_copy_ctor = False\<rparr>,
                open_class cxx n fb
                  (Printv [] [Some '' : public '',
                     case fb of None \<Rightarrow> None | Some b \<Rightarrow> Getattr b ''sym:name'']),
                diags)))"


subsection \<open>Wrapper of one member\<close>

fun Strstr :: "string \<Rightarrow> string \<Rightarrow> bool" where
  "Strstr [] pat = (pat = [])"
| "Strstr (c # s) pat = (take (length pat) (c # s) = pat \<or> Strstr s pat)"

definition get_virtual_prefix :: "node \<Rightarrow> string" where
  "get_virtual_prefix n = (if Checkattr n ''storage'' ''virtual'' then ''virtual '' else [])"

definition get_const_suffix :: "node \<Rightarrow> string" where
  "get_const_suffix n =
     (case Getattr n ''qualifier'' of
        None \<Rightarrow> []
      | Some q \<Rightarrow> if take 8 q = ''q(const)'' then '' const'' else [])"

definition append_sep :: "string \<Rightarrow> string" where
  "append_sep s = (if s \<noteq> [] then s @ '', '' else s)"

text \<open>
  The loop over the parameters builds the C++ parameter list and the argument list of the
  call; it stops with a warning at the first parameter without a \<open>ctype\<close> typemap.
\<close>

definition parm_name :: "env \<Rightarrow> attrs \<Rightarrow> string option" where
  "parm_name e p =
     (case p ''name'' of
        None \<Rightarrow> p ''lname''
      | Some nm \<Rightarrow> if Strstr nm ''::'' then Some (Swig_scopename_last e nm) else Some nm)"

fun parms_loop :: "env \<Rightarrow> node \<Rightarrow> attrs list \<Rightarrow> string \<Rightarrow> string \<Rightarrow> diagnostic + string \<times> string"
where
  "parms_loop e n [] parms_cxx parms_call = Inr (parms_cxx, parms_call)"
| "parms_loop e n (p # ps) parms_cxx parms_call =
     (let name = parm_name e p; ptype_desc = lookup_cxx_parm_type e p in
      if td_type ptype_desc = None
      then Inl (Swig_warning WARN_C_TYPEMAP_CTYPE_UNDEF
                  (''No ctype typemap defined for the parameter \"'' @ str_of name @
                   ''\" of '' @ str_of (Getattr n ''sym:name'') @ nl))
      else parms_loop e n ps
             (Printv (append_sep parms_cxx) [td_type ptype_desc, Some '' '', name])
             (Printv (append_sep parms_call)
                [Some (wrap_start ptype_desc), name, Some (wrap_end ptype_desc)]))"

text \<open>The \<open>this\<close> parameter of a non-static member is skipped; anything else there is reported.\<close>

definition skip_self :: "node \<Rightarrow> bool \<Rightarrow> attrs list \<times> diagnostic list" where
  "skip_self n skip =
     (case parms n of
        [] \<Rightarrow> ([], [])
      | p # ps \<Rightarrow>
          if skip then
            (if p ''name'' = Some ''self'' then (ps, [])
             else (p # ps, [Swig_warning WARN_C_UNSUPPORTTED
                     (''Unexpected first parameter \"'' @ str_of (p ''name'') @ ''\" in '' @
                      str_of (Getattr n ''sym:name'') @ nl)]))
          else (p # ps, []))"

text \<open>
  The exception check around the call: dropped for a member marked \<open>noexcept\<close>, or marked
  with an empty \<open>throw()\<close> specification.
\<close>

definition no_throw :: "node \<Rightarrow> bool" where
  "no_throw n = (Checkattr n ''noexcept'' ''true'' \<or>
                 (Checkattr n ''throw'' ''1'' \<and> Getattr n ''throws'' = None))"

definition except_check :: "cxx_wrappers \<Rightarrow> node \<Rightarrow> string \<times> string" where
  "except_check cxx n =
     (if except_check_start cxx \<noteq> [] then
        (if no_throw n then ([], []) else (except_check_start cxx, except_check_end cxx))
      else (except_check_start cxx, except_check_end cxx))"


text \<open>The branches of \<open>emit_member_function\<close>, one per kind of member.\<close>

definition emit_variable ::
  "cxx_wrappers \<Rightarrow> diagnostic list \<Rightarrow> node \<Rightarrow> type_desc \<Rightarrow> string option \<Rightarrow> string \<Rightarrow> string
     \<Rightarrow> cxx_wrappers \<times> diagnostic list"
where
  "emit_variable cxx diags n rtype_desc name parms_cxx parms_call =
     (if Checkattr n ''memberget'' ''1'' then
        (cxx\<lparr>sect_decls := Printv_sect (sect_decls cxx)
           [Some cindent, td_type rtype_desc, Some '' '', name, Some (''() const '' @ ''{ ''),
            Some ''return '', Some (wrap_start rtype_desc),
            Getattr n ''sym:name'', Some ''(swig_self())'',
            Some (wrap_end rtype_desc), Some (''; }'' @ nl)]\<rparr>, diags)
      else if Checkattr n ''memberset'' ''1'' then
        (cxx\<lparr>sect_decls := Printv_sect (sect_decls cxx)
           [Some cindent, Some ''void '', name, Some ''('', Some parms_cxx, Some ('') '' @ ''{ ''),
            Getattr n ''sym:name'', Some ''(swig_self(), '', Some parms_call,
            Some (''); }'' @ nl)]\<rparr>, diags)
      else if Checkattr n ''varget'' ''1'' then
        (cxx\<lparr>sect_decls := Printv_sect (sect_decls cxx)
           [Some cindent, Some ''static '', td_type rtype_desc, Some '' '', name,
            Some (''() '' @ ''{ ''),
            Some ''return '', Some (wrap_start rtype_desc),
            Getattr n ''sym:name'', Some ''()'',
            Some (wrap_end rtype_desc), Some (''; }'' @ nl)]\<rparr>, diags)
      else if Checkattr n ''varset'' ''1'' then
        (cxx\<lparr>sect_decls := Printv_sect (sect_decls cxx)
           [Some cindent, Some ''static void '', name, Some ''('', Some parms_cxx,
            Some ('') '' @ ''{ ''),
            Getattr n ''sym:name'', Some ''('', Some parms_call, Some (''); }'' @ nl)]\<rparr>, diags)
      else
        (cxx, diags @ [Swig_warning WARN_C_UNSUPPORTTED
           (''Not generating C++ wrappers for variable '' @ str_of (Getattr n ''sym:name'') @ nl)]))"

definition emit_ctor ::
  "cxx_wrappers \<Rightarrow> string option \<Rightarrow> string option \<Rightarrow> string \<times> string \<Rightarrow> string \<Rightarrow> string
     \<Rightarrow> cxx_wrappers"
where
  "emit_ctor cxx classname wname chk parms_cxx parms_call =
     cxx\<lparr>sect_decls := Printv_sect (sect_decls cxx)
           [Some cindent, classname, Some ''('', Some parms_cxx, Some ('');'' @ nl)],
         sect_impls := Printv_sect (sect_impls cxx)
           [Some ''inline '', classname, Some ''::'', classname, Some ''('', Some parms_cxx,
            Some '') : '', classname, Some ''{'',
            Some (fst chk), wname, Some ''('', Some parms_call, Some '')'', Some (snd chk),
            Some (''} {}'' @ nl)]\<rparr>"

definition emit_dtor ::
  "cxx_wrappers \<Rightarrow> cxx_class_wrapper \<Rightarrow> node \<Rightarrow> string option \<Rightarrow> string option \<Rightarrow> cxx_wrappers"
where
  "emit_dtor cxx w n classname wname =
     (if first_base w \<noteq> None then
        cxx\<lparr>sect_decls := Printv_sect (sect_decls cxx)
          [Some cindent, Some (get_virtual_prefix n), Some ''~'', classname, Some (''() {'' @ nl),
           Some cindent, Some cindent, Some (''if (swig_owns_self_) {'' @ nl),
           Some cindent, Some cindent, Some cindent, wname, Some (''(swig_self());'' @ nl),
           Some cindent, Some cindent, Some cindent, Some (''swig_owns_self_ = false;'' @ nl),
           Some cindent, Some cindent, Some (''}'' @ nl),
           Some cindent, Some (''}'' @ nl)]\<rparr>
      else
        cxx\<lparr>sect_decls := Printv_sect (sect_decls cxx)
          [Some cindent, Some (get_virtual_prefix n), Some ''~'', classname, Some (''() {'' @ nl),
           Some cindent, Some cindent, Some (''if (swig_owns_self_)'' @ nl),
           Some cindent, Some cindent, Some cindent, wname, Some (''(swig_self_);'' @ nl),
           Some cindent, Some (''}'' @ nl)]\<rparr>)"

definition method_wparms :: "bool \<Rightarrow> string \<Rightarrow> string" where
  "method_wparms is_static parms_call =
     (let wparms = (if \<not> is_static then ''swig_self()'' else []) in
      if parms_call \<noteq> [] then append_sep wparms @ parms_call else wparms)"

definition method_call ::
  "string option \<Rightarrow> type_desc \<Rightarrow> string option \<Rightarrow> string \<times> string \<Rightarrow> string
     \<Rightarrow> string option"
where
  "method_call impls rtype_desc wname chk wparms =
     (if is_void rtype_desc then
        (let impls1 = Printv_sect impls [wname, Some ''('', Some wparms, Some '')''] in
         if fst chk \<noteq> [] then Printv_sect impls1 [Some ''; '', Some (fst chk), Some (snd chk)]
         else impls1)
      else
        Printv_sect impls
          [Some ''return '', Some (wrap_start rtype_desc),
           Some (fst chk), wname, Some ''('', Some wparms, Some '')'', Some (snd chk),
           Some (wrap_end rtype_desc)])"

definition emit_method ::
  "cxx_wrappers \<Rightarrow> node \<Rightarrow> bool \<Rightarrow> type_desc \<Rightarrow> string option \<Rightarrow> string option
     \<Rightarrow> string option \<Rightarrow> string \<times> string \<Rightarrow> string \<Rightarrow> string \<Rightarrow> cxx_wrappers"
where
  "emit_method cxx n is_static rtype_desc classname name wname chk parms_cxx parms_call =
     (let wparms = method_wparms is_static parms_call;
          decls = Printv_sect (sect_decls cxx)
            [Some cindent,
             Some (if is_static then ''static '' else get_virtual_prefix n),
             td_type rtype_desc, Some '' '',
             name, Some ''('', Some parms_cxx, Some '')'',
             Some (get_const_suffix n), Some ('';'' @ nl)];
          impls0 = Printv_sect (sect_impls cxx)
            [Some ''inline '', td_type rtype_desc, Some '' '',
             classname, Some ''::'', name, Some ''('', Some parms_cxx, Some '')'',
             Some (get_const_suffix n),
             Some '' { ''];
          impls1 = method_call impls0 rtype_desc wname chk wparms
      in cxx\<lparr>sect_decls := decls,
              sect_impls := Printv_sect impls1 [Some (''; }'' @ nl)]\<rparr>)"


definition emit_member_function ::
  "env \<Rightarrow> cxx_class_wrapper \<Rightarrow> cxx_wrappers \<Rightarrow> diagnostic list \<Rightarrow> node
     \<Rightarrow> cxx_class_wrapper \<times> cxx_wrappers \<times> diagnostic list"
where
  "emit_member_function e w cxx diags n =
     (case class_node w of
        None \<Rightarrow> (w, cxx, diags)
      | Some cn \<Rightarrow>
        if Getattr n ''c:inherited_from'' \<noteq> None then (w, cxx, diags)
        else if Checkattr n ''storage'' ''friend'' then (w, cxx, diags)
        else
          let is_member = Checkattr n ''ismember'' ''1'';
              is_static = (is_member \<and> Getattr n ''cplus:staticbase'' \<noteq> None);
              is_ctor = Checkattr n ''nodeType'' ''constructor'';
              rtype_desc = (if SwigType_type e (Getattr n ''type'') \<noteq> T_VOID
                            then lookup_cxx_ret_type e n else set_void_type)
          in
          if td_type rtype_desc = None then
            (w, cxx, diags @ [Swig_warning WARN_C_TYPEMAP_CTYPE_UNDEF
               (''No ctype typemap defined for the return type \"'' @
                SwigType_str e (str_of (Getattr n ''type'')) @ ''\" of '' @
                str_of (Getattr n ''sym:name'') @ nl)])
          else
            let (ps, self_diags) = skip_self n (is_member \<and> \<not> is_ctor \<and> \<not> is_static);
                diags1 = diags @ self_diags
            in
            case parms_loop e n ps [] [] of
              Inl d \<Rightarrow> (w, cxx, diags1 @ [d])
            | Inr (parms_cxx, parms_call) \<Rightarrow>
                let chk = except_check cxx n;
                    name = map_option (Swig_scopename_last e) (Getattr n ''name'');
                    wname = Getattr n ''wrap:name'';
                    classname = Getattr cn ''sym:name''
                in
                if Checkattr n ''kind'' ''variable'' then
                  (case emit_variable cxx diags1 n rtype_desc name parms_cxx parms_call of
                     (cxx1, diags2) \<Rightarrow> (w, cxx1, diags2))
                else if is_ctor then
                  (w\<lparr>has_copy_ctor :=
                       (if Checkattr n ''copy_constructor'' ''1'' then True
                        else has_copy_ctor w)\<rparr>,
                   emit_ctor cxx classname wname chk parms_cxx parms_call, diags1)
                else if Checkattr n ''nodeType'' ''destructor'' then
                  (w, emit_dtor cxx w n classname wname, diags1)
                else if is_member then
                  (w, emit_method cxx n is_static rtype_desc classname name wname chk
                        parms_cxx parms_call, diags1)
                else
                  (w, cxx, diags1 @ [Swig_warning WARN_C_UNSUPPORTTED
                     (''Not generating C++ wrappers for '' @
                      str_of (Getattr n ''sym:name'') @ nl)]))"

text \<open>The members of a class are visited one after the other.\<close>

fun emit_members ::
  "env \<Rightarrow> cxx_class_wrapper \<Rightarrow> cxx_wrappers \<Rightarrow> diagnostic list \<Rightarrow> node list
     \<Rightarrow> cxx_class_wrapper \<times> cxx_wrappers \<times> diagnostic list"
where
  "emit_members e w cxx diags [] = (w, cxx, diags)"
| "emit_members e w cxx diags (n # ns) =
     (case emit_member_function e w cxx diags n of
        (w1, cxx1, diags1) \<Rightarrow> emit_members e w1 cxx1 diags1 ns)"

subsection \<open>Names of the wrapped classes in C\<close>

text \<open>
  \<open>get_c_proxy_name\<close> computes the name once and stores it in the node; the node with
  its cache is returned beside the name.
\<close>

definition get_c_proxy_name :: "env \<Rightarrow> node \<Rightarrow> string \<times> node" where
  "get_c_proxy_name e n =
     (case Getattr n ''proxyname'' of
        Some proxyname \<Rightarrow> (proxyname, n)
      | None \<Rightarrow>
          let symname = Getattr n ''sym:name'';
              proxyname =
                (case Getattr n ''sym:nspace'' of
                   Some nspace \<Rightarrow> Swig_string_mangle e nspace @ ''_'' @ str_of symname
                 | None \<Rightarrow> Swig_name_type e (str_of symname))
          in (proxyname, Setattr n ''proxyname'' proxyname))"

definition get_c_class_ptr :: "env \<Rightarrow> node \<Rightarrow> string" where
  "get_c_class_ptr e cn = ''SwigObj_'' @ fst (get_c_proxy_name e cn) @ ''*''"


subsection \<open>Closing the class\<close>

text \<open>
  The destructor of \<open>cxx_class_wrapper\<close> writes the trailing declarations of the class, each
  with one call of \<open>Printv\<close>: the constructor from the C pointer, the copy policy, the
  deleted assignment, the move operations and the accessor of the C pointer.
\<close>

definition dtor_ctor_from_ptr ::
  "env \<Rightarrow> cxx_class_wrapper \<Rightarrow> node \<Rightarrow> string option \<Rightarrow> string option"
where
  "dtor_ctor_from_ptr e w cn decls =
     (let classname = Getattr cn ''sym:name'';
          decls1 = Printv_sect decls
            [Some nl, Some cindent, Some ''explicit '', classname, Some ''('',
             Some (get_c_class_ptr e cn),
             Some ('' swig_self, '' @ ''bool swig_owns_self = true) noexcept : '')];
          decls2 =
            (case first_base w of
               Some fb \<Rightarrow> Printv_sect decls1
                 [Getattr fb ''sym:name'', Some ''{('', Some (get_c_class_ptr e fb),
                  Some '')swig_self, swig_owns_self}'']
             | None \<Rightarrow> Printv_sect decls1
                 [Some ''swig_self_{swig_self}, swig_owns_self_{swig_owns_self}''])
      in map_option (\<lambda>d. d @ '' {}'' @ nl) decls2)"

definition dtor_copy_ctor :: "cxx_class_wrapper \<Rightarrow> node \<Rightarrow> string option \<Rightarrow> string option" where
  "dtor_copy_ctor w cn decls =
     (let classname = Getattr cn ''sym:name'' in
      if \<not> has_copy_ctor w then
        Printv_sect decls
          [Some cindent, classname, Some ''('', classname, Some ('' const&) = delete;'' @ nl)]
      else decls)"

definition dtor_copy_assign :: "node \<Rightarrow> string option \<Rightarrow> string option" where
  "dtor_copy_assign cn decls =
     (let classname = Getattr cn ''sym:name'' in
      Printv_sect decls
        [Some cindent, classname, Some ''& operator=('', classname,
         Some ('' const&) = delete;'' @ nl)])"

definition dtor_move :: "cxx_class_wrapper \<Rightarrow> node \<Rightarrow> string option \<Rightarrow> string option" where
  "dtor_move w cn decls =
     (let classname = Getattr cn ''sym:name'' in
      if first_base w \<noteq> None then
        Printv_sect decls
          [Some cindent, classname, Some ''('', classname, Some (''&& obj) = default;'' @ nl),
           Some cindent, classname, Some ''& operator=('', classname,
           Some (''&& obj) = default;'' @ nl)]
      else
        Printv_sect decls
          [Some cindent, classname, Some ''('', classname,
           Some (''&& obj) noexcept : '' @
                 ''swig_self_{obj.swig_self_}, swig_owns_self_{obj.swig_owns_self_} { '' @
                 ''obj.swig_owns_self_ = false; '' @
                 ''}'' @ nl),
           Some cindent, classname, Some ''& operator=('', classname,
           Some (''&& obj) noexcept { '' @
                 ''swig_self_ = obj.swig_self_; swig_owns_self_ = obj.swig_owns_self_; '' @
                 ''obj.swig_owns_self_ = false; '' @
                 ''return *this; '' @
                 ''}'' @ nl)])"

definition dtor_swig_self ::
  "env \<Rightarrow> cxx_class_wrapper \<Rightarrow> node \<Rightarrow> string option \<Rightarrow> string option"
where
  "dtor_swig_self e w cn decls =
     (let c_class_ptr = get_c_class_ptr e cn;
          decls1 = Printv_sect decls
            [Some cindent, Some c_class_ptr, Some '' swig_self() const noexcept ''];
          decls2 =
            (case first_base w of
               Some fb \<Rightarrow> Printv_sect decls1
                 [Some ''{ return ('', Some c_class_ptr, Some '')'', Getattr fb ''sym:name'',
                  Some (''::swig_self(); }'' @ nl)]
             | None \<Rightarrow> Printv_sect decls1
                 [Some (''{ return swig_self_; }'' @ nl),
                  Some cindent, Some c_class_ptr, Some ('' swig_self_;'' @ nl),
                  Some cindent, Some (''bool swig_owns_self_;'' @ nl)])
      in Printv_sect decls2 [Some (''};'' @ nl @ nl)])"

definition cxx_class_wrapper_dtor :: "env \<Rightarrow> cxx_class_wrapper \<Rightarrow> cxx_wrappers \<Rightarrow> cxx_wrappers"
where
  "cxx_class_wrapper_dtor e w cxx =
     (case class_node w of
        None \<Rightarrow> cxx
      | Some cn \<Rightarrow>
          cxx\<lparr>sect_decls :=
            dtor_swig_self e w cn
              (dtor_move w cn
                (dtor_copy_assign cn
                  (dtor_copy_ctor w cn
                    (dtor_ctor_from_ptr e w cn (sect_decls cxx)))))\<rparr>)"

text \<open>
  A wrapped copy constructor: a member for which \<open>emit_member_function\<close> reaches its
  constructor branch (the member is neither inherited nor a friend, its return type and its
  parameters have \<open>ctype\<close> typemaps, it is not a variable) and that is marked as copy
  constructor.
\<close>

definition wrapped_copy_ctor :: "env \<Rightarrow> node \<Rightarrow> bool" where
  "wrapped_copy_ctor e n =
     (Getattr n ''c:inherited_from'' = None \<and>
      \<not> Checkattr n ''storage'' ''friend'' \<and>
      (SwigType_type e (Getattr n ''type'') \<noteq> T_VOID \<longrightarrow>
         td_type (lookup_cxx_ret_type e n) \<noteq> None) \<and>
      \<not> isl (parms_loop e n (parms n) [] []) \<and>
      \<not> Checkattr n ''kind'' ''variable'' \<and>
      Checkattr n ''nodeType'' ''constructor'' \<and>
      Checkattr n ''copy_constructor'' ''1'')"


subsection \<open>Concrete inputs\<close>

text \<open>
  A small environment for running the definitions: types are classified by their spelling,
  the \<open>ctype\<close> typemap of a node or parameter is its type, and names are neither scoped
  nor mangled.
\<close>

definition example_env :: env where
  "example_env =
     \<lparr>SwigType_type = (\<lambda>t. if t = Some ''void'' then T_VOID
                           else if t = Some ''v(...)'' then T_VARARGS
                           else if t = Some ''bool'' then T_BOOL
                           else if t = Some ''char'' then T_CHAR else T_OTHER),
      lookup_cxx_ret_type = (\<lambda>n. \<lparr>td_type = Getattr n ''type'', wrap_start = [], wrap_end = []\<rparr>),
      lookup_cxx_parm_type = (\<lambda>p. \<lparr>td_type = p ''type'', wrap_start = [], wrap_end = []\<rparr>),
      Swig_scopename_last = (\<lambda>s. s),
      Swig_scopename_prefix = (\<lambda>s. None),
      Swig_string_mangle = (\<lambda>s. s),
      Swig_name_type = (\<lambda>s. s),
      classLookup = (\<lambda>t. None),
      escape = (\<lambda>s. s),
      SwigType_typedef_resolve_all = (\<lambda>t. Some t),
      Swig_name_mangle = (\<lambda>s. s),
      SwigType_str = (\<lambda>t. t),
      SwigType_lstr = (\<lambda>t. t),
      ctype_lookup = (\<lambda>n. Getattr n ''type''),
      substituteResolvedType = (\<lambda>t tm. tm),
      cppresult_decl = (\<lambda>t. str_of t @ '' cppresult''),
      emit_parameter_variables = (\<lambda>ps. []),
      emit_return_variable = (\<lambda>n t. []),
      emit_action = (\<lambda>n. str_of (Getattr n ''wrap:action'')),
      Swig_typemap_lookup_out = (\<lambda>n action. None),
      Wrapper_print = (\<lambda>w. wrapper_def w @ concat (wrapper_locals w) @ wrapper_code w)\<rparr>"

definition example_cxx :: cxx_wrappers where
  "example_cxx =
     \<lparr>except_check_start = ''swig_check('', except_check_end = '')'',
      sect_types = Some [], sect_decls = Some [], sect_impls = Some []\<rparr>"

definition class_Foo :: node where
  "class_Foo = Node [''sym:name'' \<mapsto> ''Foo'', ''name'' \<mapsto> ''Foo''] [] None []"

definition Foo_copy_ctor :: node where
  "Foo_copy_ctor =
     Node [''nodeType'' \<mapsto> ''constructor'', ''copy_constructor'' \<mapsto> ''1'',
           ''name'' \<mapsto> ''Foo'', ''sym:name'' \<mapsto> ''Foo'', ''wrap:name'' \<mapsto> ''Foo_copy'',
           ''type'' \<mapsto> ''void'']
          [[''name'' \<mapsto> ''other'', ''type'' \<mapsto> ''Foo const&'']] None []"

text \<open>The state of the facade of \<open>Foo\<close> after its opening and after its copy constructor.\<close>

definition Foo_opened :: "cxx_class_wrapper \<times> cxx_wrappers \<times> diagnostic list" where
  "Foo_opened = cxx_class_wrapper_ctor example_cxx [] class_Foo"

definition Foo_visited :: "cxx_class_wrapper \<times> cxx_wrappers \<times> diagnostic list" where
  "Foo_visited = emit_members example_env (fst Foo_opened) (fst (snd Foo_opened))
                   (snd (snd Foo_opened)) [Foo_copy_ctor]"

subsection \<open>Exception support of the facade\<close>

datatype exceptions_support =
  exceptions_support_enabled | exceptions_support_disabled | exceptions_support_imported

definition swig_check_definition :: "string option list" where
  "swig_check_definition =
     [Some (''inline void swig_check() {'' @ nl),
      Some cindent, Some (''if (SWIG_CException* swig_ex = SWIG_CException::get_pending()) {'' @ nl),
      Some cindent, Some cindent, Some (''SWIG_CException swig_ex_copy{*swig_ex};'' @ nl),
      Some cindent, Some cindent, Some (''SWIG_CException::reset_pending();'' @ nl),
      Some cindent, Some cindent, Some (''throw swig_ex_copy;'' @ nl),
      Some cindent, Some (''}'' @ nl),
      Some (''}'' @ nl @ nl),
      Some (''template <typename T> T swig_check(T x) {'' @ nl),
      Some cindent, Some (''swig_check();'' @ nl),
      Some cindent, Some (''return x;'' @ nl),
      Some (''}'' @ nl @ nl)]"

definition initialize_exceptions :: "cxx_wrappers \<Rightarrow> exceptions_support \<Rightarrow> cxx_wrappers" where
  "initialize_exceptions cxx support =
     (case support of
        exceptions_support_enabled \<Rightarrow>
          cxx\<lparr>sect_impls := Printv_sect (sect_impls cxx) swig_check_definition,
              except_check_start := ''swig_check('', except_check_end := '')''\<rparr>
      | exceptions_support_imported \<Rightarrow>
          cxx\<lparr>except_check_start := ''swig_check('', except_check_end := '')''\<rparr>
      | exceptions_support_disabled \<Rightarrow>
          cxx\<lparr>except_check_start := [], except_check_end := []\<rparr>)"

text \<open>Two members of \<open>Foo\<close>: \<open>int get() noexcept\<close> and \<open>int next()\<close>.\<close>

definition Foo_get :: node where
  "Foo_get =
     Node [''nodeType'' \<mapsto> ''cdecl'', ''ismember'' \<mapsto> ''1'', ''noexcept'' \<mapsto> ''true'',
           ''name'' \<mapsto> ''get'', ''sym:name'' \<mapsto> ''Foo_get'', ''wrap:name'' \<mapsto> ''Foo_get'',
           ''type'' \<mapsto> ''int'']
          [[''name'' \<mapsto> ''self'', ''type'' \<mapsto> ''Foo*'']] None []"

definition Foo_next :: node where
  "Foo_next =
     Node [''nodeType'' \<mapsto> ''cdecl'', ''ismember'' \<mapsto> ''1'',
           ''name'' \<mapsto> ''next'', ''sym:name'' \<mapsto> ''Foo_next'', ''wrap:name'' \<mapsto> ''Foo_next'',
           ''type'' \<mapsto> ''int'']
          [[''name'' \<mapsto> ''self'', ''type'' \<mapsto> ''Foo*'']] None []"

definition Foo_wrapper :: cxx_class_wrapper where
  "Foo_wrapper = \<lparr>class_node = Some class_Foo, first_base = None, has_copy_ctor = False\<rparr>"

definition enabled_cxx :: cxx_wrappers where
  "enabled_cxx = initialize_exceptions
     \<lparr>except_check_start = [], except_check_end = [],
      sect_types = Some [], sect_decls = Some [], sect_impls = Some []\<rparr>
     exceptions_support_imported"

section \<open>The C wrapper generator\<close>

text \<open>
  The state of the generator: the sections of the C header and of the implementation file,
  the prefixes, the facade sections, the diagnostics reported so far, and the state of the
  traversal that the base class of the module keeps (import mode, access mode, current class).
\<close>

datatype access_mode = PUBLIC | PROTECTED | PRIVATE

record C_state =
  sect_wrappers_types :: string
  sect_wrappers_decl :: string
  sect_wrappers :: string
  ns_prefix :: "string option"
  module_name_of :: "string option"
  cxx_wrappers_of :: cxx_wrappers
  cxx_class_wrapper_of :: "cxx_class_wrapper option"
  diags_of :: "diagnostic list"
  ImportMode :: bool
  cplus_mode :: access_mode
  getCurrentClass :: "node option"

subsection \<open>Inherited members\<close>

text \<open>\<open>Setattr\<close> with a null value removes the attribute.\<close>

definition Setattr_opt :: "node \<Rightarrow> string \<Rightarrow> string option \<Rightarrow> node" where
  "Setattr_opt n k v = Node ((attrs n)(k := v)) (parms n) (bases n) (children n)"

definition appendChild :: "node \<Rightarrow> node \<Rightarrow> node" where
  "appendChild n c = Node (attrs n) (parms n) (bases n) (children n @ [c])"

text \<open>
  \<open>copy_node\<close> copies eight attributes of a member of a base class and records the class it
  comes from. (The symbol table it also stores is a hash, not a string, and is left out.)
\<close>

definition copy_node :: "node \<Rightarrow> node \<Rightarrow> node" where
  "copy_node parent nd =
     Node ((\<lambda>k. if k \<in> set [''name'', ''ismember'', ''view'', ''kind'', ''access'', ''type'', ''decl'']
                then attrs nd k else None)
             (''c:inherited_from'' := Getattr parent ''name'',
              ''sym:name'' := Getattr nd ''sym:name'',
              ''nodeType'' \<mapsto> ''cdecl''))
          (parms nd) None []"

definition is_in :: "string option \<Rightarrow> node \<Rightarrow> node option" where
  "is_in name n = find (\<lambda>h. Getattr h ''name'' = name) (children n)"

fun update_first :: "('a \<Rightarrow> bool) \<Rightarrow> ('a \<Rightarrow> 'a) \<Rightarrow> 'a list \<Rightarrow> 'a list" where
  "update_first P f [] = []"
| "update_first P f (x # xs) = (if P x then f x # xs else x # update_first P f xs)"

definition inherit_member :: "node \<Rightarrow> node \<Rightarrow> node \<Rightarrow> node" where
  "inherit_member n base nd =
     (if (Getattr nd ''kind'' = Some ''variable'' \<or> Getattr nd ''kind'' = Some ''function'') \<and>
         Getattr nd ''access'' = Some ''public'' \<and> Getattr nd ''storage'' \<noteq> Some ''static'' \<and>
         Getattr nd ''sym:name'' \<noteq> None \<and> Getattr nd ''name'' \<noteq> Some ''operator =''
      then
        (let parent_name = Getattr base ''name'' in
         case is_in (Getattr nd ''name'') n of
           Some dupl_name_node \<Rightarrow>
             (let cif = Getattr dupl_name_node ''c:inherited_from'';
                  old_name = Getattr dupl_name_node ''sym:name''
              in case (cif, parent_name) of
                   (Some c, Some p) \<Rightarrow>
                     if c \<noteq> p then
                       appendChild
                         (Node (attrs n) (parms n) (bases n)
                            (update_first (\<lambda>h. Getattr h ''name'' = Getattr nd ''name'')
                               (\<lambda>h. Setattr_opt (Setattr h ''sym:name'' (c @ str_of old_name))
                                      ''c:base_name'' old_name)
                               (children n)))
                         (Setattr_opt (Setattr (copy_node base nd) ''name'' (p @ str_of old_name))
                            ''c:base_name'' old_name)
                     else n
                 | _ \<Rightarrow> n)
         | None \<Rightarrow> appendChild n (copy_node base nd))
      else n)"

definition inherit_members :: "node \<Rightarrow> node" where
  "inherit_members n =
     (case bases n of
        None \<Rightarrow> n
      | Some baselist \<Rightarrow>
          foldl (\<lambda>n1 base. foldl (\<lambda>n2 nd. inherit_member n2 base nd) n1 (children base))
            n baselist)"

subsection \<open>Classes\<close>

text \<open>
  \<open>classHandler\<close> for C++ input. The traversal of the members of the class belongs to the
  base class of the module and is a parameter here: it receives the facade state of the
  class, the class node and the generator state. The facade is closed when the traversal
  returns.
\<close>

definition classHandler_open ::
  "env \<Rightarrow> C_state \<Rightarrow> node \<Rightarrow> cxx_class_wrapper \<times> node \<times> C_state"
where
  "classHandler_open e st n =
     (case get_c_proxy_name e n of
        (name, n1) \<Rightarrow>
          (case cxx_class_wrapper_ctor (cxx_wrappers_of st) (diags_of st) n1 of
             (w, cxx1, diags1) \<Rightarrow>
               (w, inherit_members n1,
                st\<lparr>cxx_wrappers_of := cxx1, diags_of := diags1,
                    cxx_class_wrapper_of := Some w,
                    sect_wrappers_types := Printv (sect_wrappers_types st)
                      [Some ''typedef struct SwigObj_'', Some name, Some '' '', Some name,
                       Some ('';'' @ nl @ nl)]\<rparr>)))"

definition classHandler ::
  "env \<Rightarrow> (cxx_class_wrapper \<Rightarrow> node \<Rightarrow> C_state \<Rightarrow> cxx_class_wrapper \<times> node \<times> C_state)
     \<Rightarrow> C_state \<Rightarrow> node \<Rightarrow> node \<times> C_state"
where
  "classHandler e Language_classHandler st n =
     (case classHandler_open e st n of
        (w, n2, st1) \<Rightarrow>
          (case Language_classHandler w n2 st1 of
             (w2, n3, st2) \<Rightarrow>
               (n3, st2\<lparr>cxx_wrappers_of := cxx_class_wrapper_dtor e w2 (cxx_wrappers_of st2),
                        cxx_class_wrapper_of := cxx_class_wrapper_of st\<rparr>)))"

definition usable_bases :: "node \<Rightarrow> node list" where
  "usable_bases n =
     filter (\<lambda>b. \<not> Checkattr b ''feature:ignore'' ''1'')
       (case bases n of None \<Rightarrow> [] | Some baselist \<Rightarrow> baselist)"

text \<open>
  Classes for the examples: \<open>A\<close> and \<open>B\<close> each declare a public function \<open>foo\<close>;
  \<open>D\<close> derives from both, \<open>E\<close> from \<open>A\<close> only.
\<close>

definition member_foo :: node where
  "member_foo =
     Node [''name'' \<mapsto> ''foo'', ''sym:name'' \<mapsto> ''foo'', ''kind'' \<mapsto> ''function'',
           ''access'' \<mapsto> ''public'', ''ismember'' \<mapsto> ''1'', ''type'' \<mapsto> ''void'']
          [] None []"

definition class_A :: node where
  "class_A = Node [''name'' \<mapsto> ''A'', ''sym:name'' \<mapsto> ''A''] [] None [member_foo]"

definition class_B :: node where
  "class_B = Node [''name'' \<mapsto> ''B'', ''sym:name'' \<mapsto> ''B''] [] None [member_foo]"

definition class_D :: node where
  "class_D = Node [''name'' \<mapsto> ''D'', ''sym:name'' \<mapsto> ''D''] [] (Some [class_A, class_B]) []"

definition class_E :: node where
  "class_E = Node [''name'' \<mapsto> ''E'', ''sym:name'' \<mapsto> ''E''] [] (Some [class_A]) []"

definition example_state :: C_state where
  "example_state =
     \<lparr>sect_wrappers_types = [], sect_wrappers_decl = [], sect_wrappers = [],
      ns_prefix = None, module_name_of = Some ''example'',
      cxx_wrappers_of = example_cxx, cxx_class_wrapper_of = None, diags_of = [],
      ImportMode = False, cplus_mode = PUBLIC, getCurrentClass = None\<rparr>"

subsection \<open>Names of the wrapper functions\<close>

definition GetFlag :: "node option \<Rightarrow> string \<Rightarrow> bool" where
  "GetFlag n k =
     (case n of
        None \<Rightarrow> False
      | Some m \<Rightarrow> (case Getattr m k of None \<Rightarrow> False | Some v \<Rightarrow> v \<noteq> ''0''))"

text \<open>
  \<open>getFunctionWrapperName\<close>: the name is returned as it is for the members, constructors
  and destructors seen inside a class and for the accessors of variables (the unary minus
  that the source has in front of the \<open>varget\<close> test does not change its truth value);
  any other name gets a prefix. The parent of the node is an argument.
\<close>

definition getFunctionWrapperName :: "env \<Rightarrow> C_state \<Rightarrow> node option \<Rightarrow> node \<Rightarrow> string \<Rightarrow> string"
where
  "getFunctionWrapperName e st parent n name =
     (if (getCurrentClass st \<noteq> None \<and>
            (Checkattr n ''ismember'' ''1'' \<or>
               Checkattr n ''nodeType'' ''constructor'' \<or>
                 Checkattr n ''nodeType'' ''destructor'')) \<or>
          Checkattr n ''varget'' ''1'' \<or> Checkattr n ''varset'' ''1''
      then name
      else
        let scopename_prefix =
              (if GetFlag parent ''feature:nspace'' then
                 (case Option.bind (Getattr n ''name'') (Swig_scopename_prefix e) of
                    Some p \<Rightarrow> Some (Swig_string_mangle e p)
                  | None \<Rightarrow> None)
               else None);
            prefix =
              (case scopename_prefix of
                 Some p \<Rightarrow> Some p
               | None \<Rightarrow> (case ns_prefix st of Some p \<Rightarrow> Some p | None \<Rightarrow> module_name_of st))
        in str_of prefix @ ''_'' @ name)"

text \<open>
  The policy in the words of the specification: no prefix for member functions, constructors,
  destructors and variable accessors; for the rest the first of the namespace prefix (when
  the enclosing scope asks for namespaces and the declaration has one), the configured
  global prefix, and the module name.
\<close>

definition spec_no_prefix :: "C_state \<Rightarrow> node \<Rightarrow> bool" where
  "spec_no_prefix st n =
     ((getCurrentClass st \<noteq> None \<and> Checkattr n ''ismember'' ''1'') \<or>
      (getCurrentClass st \<noteq> None \<and> Checkattr n ''nodeType'' ''constructor'') \<or>
      (getCurrentClass st \<noteq> None \<and> Checkattr n ''nodeType'' ''destructor'') \<or>
      Checkattr n ''varget'' ''1'' \<or> Checkattr n ''varset'' ''1'')"

definition spec_namespace_prefix :: "env \<Rightarrow> node option \<Rightarrow> node \<Rightarrow> string option" where
  "spec_namespace_prefix e parent n =
     (if GetFlag parent ''feature:nspace''
      then map_option (Swig_string_mangle e)
             (Option.bind (Getattr n ''name'') (Swig_scopename_prefix e))
      else None)"

fun first_of :: "string option list \<Rightarrow> string" where
  "first_of [] = []"
| "first_of (None # rest) = first_of rest"
| "first_of (Some p # rest) = p"

definition spec_prefix :: "env \<Rightarrow> C_state \<Rightarrow> node option \<Rightarrow> node \<Rightarrow> string" where
  "spec_prefix e st parent n =
     first_of [spec_namespace_prefix e parent n, ns_prefix st, module_name_of st]"

text \<open>A free function \<open>add\<close>, and an environment in which names have the scope \<open>geo::\<close>.\<close>

definition free_add :: node where
  "free_add = Node [''name'' \<mapsto> ''add'', ''sym:name'' \<mapsto> ''add'', ''type'' \<mapsto> ''int'']
     [[''name'' \<mapsto> ''a'', ''type'' \<mapsto> ''int''], [''name'' \<mapsto> ''b'', ''type'' \<mapsto> ''int'']] None []"

definition nspace_parent :: node where
  "nspace_parent = Node [''feature:nspace'' \<mapsto> ''1''] [] None []"

definition geo_env :: env where
  "geo_env = example_env\<lparr>Swig_scopename_prefix := (\<lambda>s. Some ''geo'')\<rparr>"

subsection \<open>Names of the enums\<close>





subsection \<open>Enums\<close>

text \<open>
  While an enum is being wrapped, its C declaration and (when the facade is generated) its
  C++ declaration are accumulated in two scratch strings.
\<close>

record enum_bufs =
  enum_decl :: string
  cxx_enum_decl :: "string option"

definition enum_cvalue :: "env \<Rightarrow> node \<Rightarrow> string \<Rightarrow> string option \<times> diagnostic list" where
  "enum_cvalue e n v =
     (case SwigType_type e (Getattr n ''type'') of
        T_BOOL \<Rightarrow>
          if v = ''true'' then (Some ''1'', [])
          else if v = ''false'' then (Some ''0'', [])
          else (None, [Swig_error (''Unsupported boolean enum value \"'' @ v @ ''\".'' @ nl)])
      | T_CHAR \<Rightarrow> (Some ([CHR 0x27] @ escape e v @ [CHR 0x27]), [])
      | _ \<Rightarrow> (Some v, []))"

definition enumvalueDeclaration ::
  "env \<Rightarrow> string \<Rightarrow> string \<Rightarrow> enum_bufs \<times> diagnostic list \<Rightarrow> node
     \<Rightarrow> enum_bufs \<times> diagnostic list"
where
  "enumvalueDeclaration e enum_prefix cxx_enum_indent acc n =
     (case acc of (bufs, diags) \<Rightarrow>
      if Getattr n ''ismember'' = Some ''1'' \<and> Getattr n ''access'' \<noteq> Some ''public''
      then (bufs, diags)
      else
        let b1 = (if \<not> GetFlag (Some n) ''firstenumitem''
                  then bufs\<lparr>enum_decl := Printv (enum_decl bufs) [Some ('','' @ nl)],
                            cxx_enum_decl := Printv_sect (cxx_enum_decl bufs) [Some ('','' @ nl)]\<rparr>
                  else bufs);
            symname = Getattr n ''sym:name'';
            b2 = b1\<lparr>enum_decl := Printv (enum_decl b1) [Some cindent, Some enum_prefix, symname],
                    cxx_enum_decl := Printv_sect (cxx_enum_decl b1)
                      [Some cxx_enum_indent, Some cindent, symname]\<rparr>
        in case Getattr n ''enumvalue'' of
             None \<Rightarrow> (b2, diags)
           | Some v \<Rightarrow>
               (case enum_cvalue e n v of
                  (cvalue, ds) \<Rightarrow>
                    (b2\<lparr>enum_decl := Printv (enum_decl b2) [Some '' = '', cvalue],
                        cxx_enum_decl := Printv_sect (cxx_enum_decl b2) [Some '' = '', cvalue]\<rparr>,
                     diags @ ds)))"

text \<open>
  Modelled from the spec: the traversal of the elements (\<open>Language::enumDeclaration\<close>) is
  part of the base class of the module and not of this file. The specification has the
  elements accumulated one after the other, ignored elements being left out: the elements
  with \<open>feature:ignore\<close> are skipped and \<open>enumvalueDeclaration\<close> is called on the others,
  in order.
\<close>

fun Language_enumDeclaration ::
  "env \<Rightarrow> string \<Rightarrow> string \<Rightarrow> enum_bufs \<times> diagnostic list \<Rightarrow> node list
     \<Rightarrow> enum_bufs \<times> diagnostic list"
where
  "Language_enumDeclaration e enum_prefix cxx_enum_indent acc [] = acc"
| "Language_enumDeclaration e enum_prefix cxx_enum_indent acc (c # cs) =
     Language_enumDeclaration e enum_prefix cxx_enum_indent
       (if GetFlag (Some c) ''feature:ignore'' then acc
        else enumvalueDeclaration e enum_prefix cxx_enum_indent acc c) cs"

text \<open>
  The first part of \<open>enumDeclaration\<close>, up to the opening brace: the prefix of the
  elements, the indent of the C++ declaration, the two scratch strings and the current class
  with its cached proxy name.
\<close>

definition enum_open :: "env \<Rightarrow> C_state \<Rightarrow> node \<Rightarrow> string \<times> string \<times> enum_bufs \<times> node option"
where
  "enum_open e st n =
     (let cxx0 = (if is_initialized (cxx_wrappers_of st) then Some [] else None);
          cxx_enum_indent =
            (if cxx0 \<noteq> None \<and> cxx_class_wrapper_of st \<noteq> None then cindent else []);
          cxx1 = map_option (\<lambda>s. s @ cxx_enum_indent) cxx0;
          tdname = Getattr n ''tdname'';
          ed1 = (if tdname \<noteq> None then Printv [] [Some ''typedef ''] else []);
          cxx2 = (if tdname \<noteq> None then Printv_sect cxx1 [Some ''typedef ''] else cxx1);
          ed2 = Printv ed1 [Some ''enum''];
          cxx3 = Printv_sect cxx2 [Some ''enum''];
          klass = map_option (get_c_proxy_name e) (getCurrentClass st);
          enum_prefix0 = (case klass of Some (p, k) \<Rightarrow> Some p | None \<Rightarrow> ns_prefix st);
          name = (if Getattr n ''unnamed'' \<noteq> None then None else Getattr n ''name'')
      in case name of
           None \<Rightarrow>
             (case enum_prefix0 of Some p \<Rightarrow> p @ ''_'' | None \<Rightarrow> [],
              cxx_enum_indent,
              \<lparr>enum_decl = Printv ed2 [Some ('' {'' @ nl)],
               cxx_enum_decl = Printv_sect cxx3 [Some ('' {'' @ nl)]\<rparr>,
              map_option snd klass)
         | Some nm \<Rightarrow>
             (let enumname0 = Swig_scopename_last e nm;
                  cxx4 = Printv_sect cxx3 [Some '' '', Some enumname0];
                  enumname = (case enum_prefix0 of Some p \<Rightarrow> p @ ''_'' @ enumname0
                              | None \<Rightarrow> enumname0);
                  ed3 = Printv ed2 [Some '' '', Some enumname];
                  enum_prefix = (if Getattr n ''scopedenum'' \<noteq> None then Some enumname
                                 else enum_prefix0)
              in (case enum_prefix of Some p \<Rightarrow> p @ ''_'' | None \<Rightarrow> [],
                  cxx_enum_indent,
                  \<lparr>enum_decl = Printv ed3 [Some ('' {'' @ nl)],
                   cxx_enum_decl = Printv_sect cxx4 [Some ('' {'' @ nl)]\<rparr>,
                  map_option snd klass)))"

text \<open>The end of \<open>enumDeclaration\<close>: the declarations are closed and written out.\<close>

definition enum_close_c :: "node \<Rightarrow> string \<Rightarrow> string \<Rightarrow> string" where
  "enum_close_c n enum_prefix ed =
     (let ed1 = Printv ed [Some (nl @ ''}'')];
          ed2 = (case Getattr n ''tdname'' of
                   Some tdname \<Rightarrow> Printv ed1 [Some '' '', Some enum_prefix, Some tdname]
                 | None \<Rightarrow> ed1)
      in Printv ed2 [Some ('';'' @ nl @ nl)])"

definition enum_close_cxx :: "node \<Rightarrow> string \<Rightarrow> string option \<Rightarrow> string option" where
  "enum_close_cxx n cxx_enum_indent cxx =
     (let cxx1 = Printv_sect cxx [Some nl, Some cxx_enum_indent, Some ''}''];
          cxx2 = (case Getattr n ''tdname'' of
                    Some tdname \<Rightarrow> Printv_sect cxx1 [Some '' '', Some tdname]
                  | None \<Rightarrow> cxx1)
      in Printv_sect cxx2 [Some ('';'' @ nl @ nl)])"

definition enum_flush_cxx :: "C_state \<Rightarrow> string option \<Rightarrow> cxx_wrappers" where
  "enum_flush_cxx st cxx =
     (case cxx of
        None \<Rightarrow> cxx_wrappers_of st
      | Some text \<Rightarrow>
          if cxx_class_wrapper_of st \<noteq> None
          then (cxx_wrappers_of st)
                 \<lparr>sect_decls := map_option (\<lambda>d. d @ text) (sect_decls (cxx_wrappers_of st))\<rparr>
          else (cxx_wrappers_of st)
                 \<lparr>sect_types := map_option (\<lambda>d. d @ text) (sect_types (cxx_wrappers_of st))\<rparr>)"

definition enumDeclaration :: "env \<Rightarrow> C_state \<Rightarrow> node \<Rightarrow> C_state" where
  "enumDeclaration e st n =
     (if ImportMode st then st
      else if getCurrentClass st \<noteq> None \<and> cplus_mode st \<noteq> PUBLIC then st
      else
        case enum_open e st n of
          (enum_prefix, cxx_enum_indent, bufs0, klass) \<Rightarrow>
            (let len_orig = length (enum_decl bufs0) in
             case Language_enumDeclaration e enum_prefix cxx_enum_indent (bufs0, diags_of st)
                    (children n) of
               (bufs, diags) \<Rightarrow>
                 if length (enum_decl bufs) > len_orig then
                   st\<lparr>sect_wrappers_types :=
                        sect_wrappers_types st @ enum_close_c n enum_prefix (enum_decl bufs),
                      cxx_wrappers_of :=
                        enum_flush_cxx st (enum_close_cxx n cxx_enum_indent (cxx_enum_decl bufs)),
                      diags_of := diags, getCurrentClass := klass\<rparr>
                 else st\<lparr>diags_of := diags, getCurrentClass := klass\<rparr>))"

text \<open>An element survives when it is neither ignored nor a non-public member.\<close>

definition surviving :: "node \<Rightarrow> bool" where
  "surviving c =
     (\<not> GetFlag (Some c) ''feature:ignore'' \<and>
      \<not> (Getattr c ''ismember'' = Some ''1'' \<and> Getattr c ''access'' \<noteq> Some ''public''))"

text \<open>
  The enum \<open>Color { RED, GREEN }\<close> at global scope, and the same enum with its two
  elements ignored.
\<close>

definition item_RED :: node where
  "item_RED = Node [''name'' \<mapsto> ''RED'', ''sym:name'' \<mapsto> ''RED'', ''firstenumitem'' \<mapsto> ''1'']
     [] None []"

definition item_GREEN :: node where
  "item_GREEN = Node [''name'' \<mapsto> ''GREEN'', ''sym:name'' \<mapsto> ''GREEN''] [] None []"

definition Color_enum :: node where
  "Color_enum = Node [''name'' \<mapsto> ''Color'', ''sym:name'' \<mapsto> ''Color''] [] None
     [item_RED, item_GREEN]"

definition Color_ignored :: node where
  "Color_ignored = Node [''name'' \<mapsto> ''Color'', ''sym:name'' \<mapsto> ''Color''] [] None
     [Setattr item_RED ''feature:ignore'' ''1'', Setattr item_GREEN ''feature:ignore'' ''1'']"

definition gfx_state :: C_state where
  "gfx_state = example_state\<lparr>ns_prefix := Some ''gfx''\<rparr>"

section \<open>Overloaded functions\<close>

subsection \<open>Type strings\<close>

text \<open>
  Types are strings in the encoding of the type system: a sequence of constructors, each
  ended by a dot (\<open>p.\<close> pointer, \<open>r.\<close> reference, \<open>q(const).\<close> qualifier, \<open>a(n).\<close>
  array, \<open>m(C).\<close> member pointer, \<open>f(int,int).\<close> function), followed by the base type.
\<close>

definition SwigType_isbuiltin :: "string \<Rightarrow> bool" where
  "SwigType_isbuiltin t =
     (t \<in> set [''void'', ''short'', ''int'', ''long'', ''char'', ''float'', ''double'', ''bool''])"

text \<open>
  Modelled from the spec: the queries and constructors of the type system are not part of
  this file. The specification names what the mangler asks of a type (pointer, member
  pointer, function, enum, its prefix and its base); they are written here for the
  encoding above, a dot inside parentheses not ending a constructor.
\<close>

fun split_type :: "nat \<Rightarrow> string \<Rightarrow> string \<Rightarrow> string \<Rightarrow> string \<times> string" where
  "split_type d pre cur [] = (pre, cur)"
| "split_type d pre cur (c # cs) =
     (if c = CHR ''.'' \<and> d = 0 then split_type 0 (pre @ cur @ ''.'') [] cs
      else if c = CHR ''('' then split_type (Suc d) pre (cur @ [c]) cs
      else if c = CHR '')'' then split_type (d - 1) pre (cur @ [c]) cs
      else split_type d pre (cur @ [c]) cs)"

definition SwigType_prefix :: "string \<Rightarrow> string" where
  "SwigType_prefix t = fst (split_type 0 [] [] t)"

definition SwigType_base :: "string \<Rightarrow> string" where
  "SwigType_base t = snd (split_type 0 [] [] t)"

definition SwigType_ispointer :: "string \<Rightarrow> bool" where
  "SwigType_ispointer t = (take 2 t = ''p.'')"

definition SwigType_ismemberpointer :: "string \<Rightarrow> bool" where
  "SwigType_ismemberpointer t = (take 2 t = ''m('')"

definition SwigType_isfunction :: "string \<Rightarrow> bool" where
  "SwigType_isfunction t = (take 2 t = ''f('')"

definition SwigType_isenum :: "string \<Rightarrow> bool" where
  "SwigType_isenum t = (take 5 t = ''enum '')"

definition SwigType_del_pointer :: "string \<Rightarrow> string" where
  "SwigType_del_pointer t = drop 2 t"

definition SwigType_add_pointer :: "string \<Rightarrow> string" where
  "SwigType_add_pointer t = ''p.'' @ t"

fun drop_element :: "nat \<Rightarrow> string \<Rightarrow> string" where
  "drop_element d [] = []"
| "drop_element d (c # cs) =
     (if c = CHR ''.'' \<and> d = 0 then cs
      else if c = CHR ''('' then drop_element (Suc d) cs
      else if c = CHR '')'' then drop_element (d - 1) cs
      else drop_element d cs)"

definition SwigType_del_memberpointer :: "string \<Rightarrow> string" where
  "SwigType_del_memberpointer t = drop_element 0 t"

definition SwigType_isconst :: "string \<Rightarrow> bool" where
  "SwigType_isconst t =
     (take 2 t = ''q('' \<and> Strstr (takeWhile (\<lambda>c. c \<noteq> CHR '')'') (drop 2 t)) ''const'')"

text \<open>\<open>Replaceall\<close> replaces the occurrences of a token from left to right.\<close>

function Replaceall :: "string \<Rightarrow> string \<Rightarrow> string \<Rightarrow> string" where
  "Replaceall [] token rep = []"
| "Replaceall (c # s) token rep =
     (if token \<noteq> [] \<and> take (length token) (c # s) = token
      then rep @ Replaceall (drop (length token) (c # s)) token rep
      else c # Replaceall s token rep)"
  by pat_completeness auto
termination
  by (relation "measure (\<lambda>(s, token, rep). length s)") auto

subsection \<open>Mangled types\<close>

definition mangle_prefix :: "string \<Rightarrow> string" where
  "mangle_prefix prefix =
     Replaceall (Replaceall (Replaceall (Replaceall (Replaceall (Replaceall (Replaceall
       (Replaceall prefix ''.'' []) ''const'' ''c'') ''volatile'' ''v'') ''a('' ''a'')
       ''m('' ''m'') ''q('' []) '')'' []) '' '' []"

definition mangle_base :: "env \<Rightarrow> string \<Rightarrow> string" where
  "mangle_base e t =
     (let type = SwigType_base t in
      if SwigType_isbuiltin type then take 1 (SwigType_base type)
      else if SwigType_isenum type then
        (let enumname = Swig_scopename_last e type;
             s = (if take 5 enumname = ''enum '' then drop 5 enumname else enumname)
         in ''e'' @ s)
      else Swig_name_mangle e (SwigType_base type))"

definition get_mangled_type :: "env \<Rightarrow> string \<Rightarrow> string" where
  "get_mangled_type e type_arg =
     (let type0 = (case SwigType_typedef_resolve_all e type_arg of
                     Some tdtype \<Rightarrow> tdtype | None \<Rightarrow> type_arg);
          type1 = (if SwigType_ismemberpointer type0
                   then SwigType_add_pointer (SwigType_del_memberpointer type0) else type0)
      in if SwigType_ispointer type1 \<and> SwigType_isfunction (SwigType_del_pointer type1)
         then ''f''
         else
           (let type = (if SwigType_ispointer type1 then type_arg else type1);
                prefix = SwigType_prefix type
            in (if prefix \<noteq> [] then mangle_prefix prefix else []) @ mangle_base e type))"

definition functionWrapperAppendOverloaded :: "env \<Rightarrow> string \<Rightarrow> attrs list \<Rightarrow> string" where
  "functionWrapperAppendOverloaded e name first_param =
     name @ concat (map (\<lambda>p. Printv [] [Some ''_'', Some (get_mangled_type e (str_of (p ''type'')))])
                     first_param)"

text \<open>The suffix as a function of the parameter types alone.\<close>

definition mangled_suffix :: "env \<Rightarrow> string option list \<Rightarrow> string" where
  "mangled_suffix e ts = concat (map (\<lambda>t. ''_'' @ get_mangled_type e (str_of t)) ts)"

text \<open>
  The name of the wrapper of a function before it is prefixed, as
  \<open>functionWrapperCPPSpecific\<close> computes it. The overloads of the function are the second
  argument. (The source skips the function itself in its list of overloads; this makes no
  difference, since the declarator of a const member is never equal to its own tail.)
\<close>

definition overloaded_name :: "env \<Rightarrow> node list option \<Rightarrow> node \<Rightarrow> string" where
  "overloaded_name e overloaded n =
     (let name = str_of (Getattr n ''sym:name'') in
      case overloaded of
        None \<Rightarrow> name
      | Some overloads \<Rightarrow>
          if Getattr n ''copy_constructor'' \<noteq> None then name
          else
            (case parms n of
               [] \<Rightarrow> name
             | p # ps \<Rightarrow>
                 if \<not> Checkattr n ''nodeType'' ''constructor'' \<and>
                    Checkattr n ''ismember'' ''1'' \<and>
                    Getattr n ''cplus:staticbase'' = None
                 then
                   (let decl = str_of (Getattr n ''decl'');
                        name1 =
                          (if SwigType_isconst decl \<and>
                              (\<exists>nover \<in> set overloads. Getattr nover ''decl'' = Some (drop 9 decl))
                           then name @ ''_const'' else name)
                    in functionWrapperAppendOverloaded e name1 ps)
                 else functionWrapperAppendOverloaded e name (p # ps)))"

text \<open>
  Two overloads of a free function \<open>g\<close>: \<open>void g(float)\<close> and
  \<open>void g(void (*)(int))\<close>.
\<close>

definition g_float :: node where
  "g_float = Node [''name'' \<mapsto> ''g'', ''sym:name'' \<mapsto> ''g'', ''type'' \<mapsto> ''void'',
                   ''decl'' \<mapsto> ''f(float).'']
     [[''type'' \<mapsto> ''float'']] None []"

definition g_callback :: node where
  "g_callback = Node [''name'' \<mapsto> ''g'', ''sym:name'' \<mapsto> ''g'', ''type'' \<mapsto> ''void'',
                      ''decl'' \<mapsto> ''f(p.f(int).void).'']
     [[''type'' \<mapsto> ''p.f(int).void'']] None []"

section \<open>Wrapper functions\<close>

text \<open>
  The return type of the wrapper: the \<open>ctype\<close> typemap of the node with its special
  variables replaced, or the empty string with a warning. (The typedefs that the replacement
  of an unknown type adds to the types section are left out.)
\<close>

definition get_wrapper_func_return_type :: "env \<Rightarrow> node \<Rightarrow> string \<times> diagnostic list" where
  "get_wrapper_func_return_type e n =
     (case ctype_lookup e n of
        Some return_type \<Rightarrow>
          (Replaceall (substituteResolvedType e (Getattr n ''type'') return_type) ''::'' ''_'', [])
      | None \<Rightarrow>
          ([], [Swig_warning WARN_C_TYPEMAP_CTYPE_UNDEF
                  (''No ctype typemap defined for '' @
                   SwigType_str e (str_of (Getattr n ''type'')) @ nl)]))"

text \<open>
  The type of one parameter in the prototype: null, with a warning, when the parameter has no
  \<open>ctype\<close> typemap.
\<close>

definition c_parm_type_of :: "env \<Rightarrow> attrs \<Rightarrow> string option \<times> diagnostic list" where
  "c_parm_type_of e p =
     (case p ''tmap:ctype'' of
        Some tm \<Rightarrow>
          (let t1 = substituteResolvedType e (p ''type'') tm;
               t2 = (if Strstr t1 ''::''
                     then (case SwigType_typedef_resolve_all e t1 of Some td \<Rightarrow> td | None \<Rightarrow> t1)
                     else t1)
           in (Some (Replaceall t2 ''$tt'' (SwigType_lstr e (str_of (p ''type'')))), []))
      | None \<Rightarrow>
          (None, [Swig_warning WARN_C_TYPEMAP_CTYPE_UNDEF
                    (''No ctype typemap defined for '' @
                     SwigType_str e (str_of (p ''type'')) @ nl)]))"

text \<open>
  The loop of \<open>get_wrapper_func_proto\<close> over the parameters. The parameter after one is
  its next sibling, as it is for the typemaps that match a single parameter. The result is
  the prototype so far, or null after a vararg parameter, the diagnostics, and the code that
  the \<open>in\<close> typemaps add to the wrapper (when there is one).
\<close>

fun proto_loop ::
  "env \<Rightarrow> node \<Rightarrow> bool \<Rightarrow> attrs list \<Rightarrow> string \<Rightarrow> bool \<Rightarrow> diagnostic list \<Rightarrow> string
     \<Rightarrow> string option \<times> diagnostic list \<times> string"
where
  "proto_loop e n wrapper [] proto gencomma diags code = (Some proto, diags, code)"
| "proto_loop e n wrapper (p # ps) proto gencomma diags code =
     (if p ''tmap:in:numinputs'' = Some ''0'' then
        proto_loop e n wrapper ps proto gencomma diags code
      else if SwigType_type e (p ''type'') = T_VOID then
        proto_loop e n wrapper ps proto gencomma diags code
      else if SwigType_type e (p ''type'') = T_VARARGS then
        (None,
         diags @ [Swig_error (''Vararg function '' @ str_of (Getattr n ''name'') @
                              '' not supported.'' @ nl)],
         code)
      else
        (let arg_name = ''c'' @ str_of (p ''lname'') in
         case c_parm_type_of e p of
           (c_parm_type, ds) \<Rightarrow>
             (let proto1 = Printv proto
                    [Some (if gencomma then '', '' else []), c_parm_type, Some '' '', Some arg_name]
              in case p ''tmap:in'' of
                   Some tm \<Rightarrow>
                     proto_loop e n wrapper ps proto1 True (diags @ ds)
                       (if wrapper then code @ Replaceall tm ''$input'' arg_name @ nl else code)
                 | None \<Rightarrow>
                     proto_loop e n wrapper ps proto1 True
                       (diags @ ds @
                        [Swig_warning WARN_TYPEMAP_IN_UNDEF
                           (''Unable to use type '' @ SwigType_str e (str_of (p ''type'')) @
                            '' as a function argument.'' @ nl)])
                       code)))"

definition get_wrapper_func_proto ::
  "env \<Rightarrow> node \<Rightarrow> bool \<Rightarrow> string option \<times> diagnostic list \<times> string"
where
  "get_wrapper_func_proto e n wrapper =
     (case proto_loop e n wrapper (parms n) ''('' False [] [] of
        (Some proto, diags, code) \<Rightarrow> (Some (Printv proto [Some '')'']), diags, code)
      | (None, diags, code) \<Rightarrow> (None, diags, code))"

definition emit_wrapper_func_decl :: "env \<Rightarrow> C_state \<Rightarrow> node \<Rightarrow> string \<Rightarrow> C_state" where
  "emit_wrapper_func_decl e st n wname =
     (case get_wrapper_func_return_type e n of
        (return_type, ds1) \<Rightarrow>
          (case get_wrapper_func_proto e n False of
             (proto, ds2, code) \<Rightarrow>
               st\<lparr>sect_wrappers_decl := Printv (sect_wrappers_decl st)
                    [Some ''SWIGIMPORT '', Some return_type, Some '' '', Some wname, proto,
                     Some ('';'' @ nl @ nl)],
                  diags_of := diags_of st @ ds1 @ ds2\<rparr>))"

text \<open>Parameters without a local name get \<open>arg1\<close>, \<open>arg2\<close>, ... by their position.\<close>

definition digit :: "nat \<Rightarrow> char" where
  "digit k =
     (if k = 0 then CHR ''0'' else if k = 1 then CHR ''1'' else if k = 2 then CHR ''2''
      else if k = 3 then CHR ''3'' else if k = 4 then CHR ''4'' else if k = 5 then CHR ''5''
      else if k = 6 then CHR ''6'' else if k = 7 then CHR ''7'' else if k = 8 then CHR ''8''
      else CHR ''9'')"

function string_of_nat :: "nat \<Rightarrow> string" where
  "string_of_nat k =
     (if k < 10 then [digit k]
      else string_of_nat (k div 10) @ [digit (k mod 10)])"
  by pat_completeness auto
termination
  by (relation "measure (\<lambda>k. k)") auto

fun set_lnames :: "nat \<Rightarrow> attrs list \<Rightarrow> attrs list" where
  "set_lnames index [] = []"
| "set_lnames index (p # ps) =
     (if p ''lname'' = None then p(''lname'' \<mapsto> ''arg'' @ string_of_nat index) else p)
     # set_lnames (Suc index) ps"

text \<open>
  The constraint checks: the \<open>check\<close> typemap of each parameter, with the local name of the
  parameter for \<open>$target\<close> and the name of the function for \<open>$name\<close>.
\<close>

fun check_code :: "string \<Rightarrow> attrs list \<Rightarrow> string" where
  "check_code name [] = []"
| "check_code name (p # ps) =
     (case p ''tmap:check'' of
        Some tm \<Rightarrow>
          Replaceall (Replaceall tm ''$target'' (str_of (p ''lname''))) ''$name'' name @ nl @
          check_code name ps
      | None \<Rightarrow> check_code name ps)"

text \<open>
  The action stored on the node is rewritten in place: an inherited member whose name clashed
  calls the member of the base class it comes from, and the result of the call goes to
  \<open>cppresult\<close>. (\<open>Replaceall\<close> leaves the text as it is for an empty token.)
\<close>

definition rewrite_action :: "node \<Rightarrow> string \<Rightarrow> string" where
  "rewrite_action n action =
     (let action1 =
            (case Getattr n ''c:base_name'' of
               Some cbase_name \<Rightarrow>
                 Replaceall
                   (Replaceall action ''arg1)->''
                      (''('' @ str_of (Getattr n ''c:inherited_from'') @ ''*)arg1)->''))
                   (str_of (Getattr n ''name'')) cbase_name
             | None \<Rightarrow> action)
      in Replaceall action1 ''result ='' ''cppresult ='')"

definition set_action :: "node \<Rightarrow> node" where
  "set_action n =
     (case Getattr n ''wrap:action'' of
        Some action \<Rightarrow> Setattr n ''wrap:action'' (rewrite_action n action)
      | None \<Rightarrow> n)"

text \<open>
  The \<open>out\<close> typemap: a cast to the return type of the wrapper is put after the first
  \<open>$result = \<close> when it starts the text or follows a space; then \<open>$result\<close> and
  \<open>$owner\<close> are replaced, and a line break follows a text that is not empty.
\<close>

fun strstr_index :: "string \<Rightarrow> string \<Rightarrow> nat option" where
  "strstr_index [] pat = (if pat = [] then Some 0 else None)"
| "strstr_index (c # s) pat =
     (if take (length pat) (c # s) = pat then Some 0
      else map_option Suc (strstr_index s pat))"

definition insert_cast :: "string \<Rightarrow> string \<Rightarrow> string" where
  "insert_cast tm return_type =
     (case strstr_index tm ''$result = '' of
        None \<Rightarrow> tm
      | Some i \<Rightarrow>
          if i = 0 \<or> tm ! (i - 1) = CHR '' ''
          then take (i + length ''$result = '') tm @ ''('' @ return_type @ '')'' @
               drop (i + length ''$result = '') tm
          else tm)"

definition out_code :: "node \<Rightarrow> string \<Rightarrow> string \<Rightarrow> string" where
  "out_code n return_type tm =
     (let tm1 = Replaceall (Replaceall (insert_cast tm return_type) ''$result'' ''result'')
                  ''$owner'' (if GetFlag (Some n) ''feature:new'' then ''1'' else ''0'')
      in tm1 @ (if tm1 \<noteq> [] then nl else []))"

text \<open>The cleanup: the \<open>freearg\<close> typemaps that are not empty.\<close>

fun freearg_code :: "attrs list \<Rightarrow> string" where
  "freearg_code [] = []"
| "freearg_code (p # ps) =
     (case p ''tmap:freearg'' of
        Some tm \<Rightarrow>
          (if tm \<noteq> []
           then Replaceall (Replaceall tm ''$source'' (str_of (p ''lname'')))
                  ''$input'' (''c'' @ str_of (p ''lname'')) @ nl
           else []) @ freearg_code ps
      | None \<Rightarrow> freearg_code ps)"

text \<open>
  \<open>functionWrapperCPPSpecific\<close>. The node as the function leaves it: every parameter has a
  local name, the name of the wrapper is stored, and the stored action is rewritten.
\<close>

definition functionWrapperCPPSpecific_node ::
  "env \<Rightarrow> C_state \<Rightarrow> node option \<Rightarrow> node list option \<Rightarrow> node \<Rightarrow> node"
where
  "functionWrapperCPPSpecific_node e st parent overloaded n =
     (let name = overloaded_name e overloaded n;
          n0 = Node (attrs n) (set_lnames 1 (parms n)) (bases n) (children n);
          wname = getFunctionWrapperName e st parent n0 name
      in set_action (Setattr n0 ''wrap:name'' wname))"

text \<open>
  The output of \<open>functionWrapperCPPSpecific\<close>: the head of the wrapper, the local variable
  for the result, the code of the \<open>in\<close> and \<open>check\<close> typemaps, the action (inside the
  \<open>out\<close> typemap when the function returns a value), the cleanup, the return statement and
  the closing brace; then the printed wrapper goes to the implementation section, the
  declaration to the header, and the member to the facade when a class is being wrapped.
\<close>

definition functionWrapperCPPSpecific ::
  "env \<Rightarrow> C_state \<Rightarrow> node option \<Rightarrow> node list option \<Rightarrow> node \<Rightarrow> C_state"
where
  "functionWrapperCPPSpecific e st parent overloaded n =
     (let name = overloaded_name e overloaded n;
          n0 = Node (attrs n) (set_lnames 1 (parms n)) (bases n) (children n);
          type = Getattr n0 ''type''
      in case get_wrapper_func_return_type e n0 of
        (return_type, ds1) \<Rightarrow>
          (let wname = getFunctionWrapperName e st parent n0 name;
               is_void_return = (SwigType_type e type = T_VOID);
               n1 = Setattr n0 ''wrap:name'' wname;
               locals1 = (if is_void_return then [] else [cppresult_decl e type]);
               def1 = Printv [] [Some ''SWIGEXPORTC '', Some return_type, Some '' '', Some wname]
           in case get_wrapper_func_proto e n1 True of
                (proto, ds2, code0) \<Rightarrow>
                  (let def2 = Printv (Printv def1 [proto]) [Some '' {''];
                       locals2 = locals1 @ emit_parameter_variables e (parms n1) @
                                 emit_return_variable e n1 return_type;
                       code1 = code0 @ check_code name (parms n1);
                       n2 = set_action n1;
                       action = emit_action e n2;
                       tm = (if is_void_return then None else Swig_typemap_lookup_out e n2 action);
                       code2 = (if is_void_return then code1 @ action
                                else (case tm of
                                        Some t \<Rightarrow> code1 @ out_code n2 return_type t
                                      | None \<Rightarrow> code1));
                       ds3 = (if \<not> is_void_return \<and> tm = None
                              then [Swig_warning WARN_TYPEMAP_OUT_UNDEF
                                      (''Unable to use return type '' @
                                       SwigType_str e (str_of type) @ '' in function '' @
                                       str_of (Getattr n2 ''name'') @ ''.'' @ nl)]
                              else []);
                       code3 = code2 @ freearg_code (parms n2);
                       code4 = (if is_void_return then Replaceall code3 ''$null'' []
                                else Replaceall code3 ''$null'' ''0'' @ ''return result;'' @ nl);
                       wrapper = \<lparr>wrapper_def = def2, wrapper_locals = locals2,
                                  wrapper_code = code4 @ ''}'' @ nl\<rparr>;
                       st1 = st\<lparr>sect_wrappers := sect_wrappers st @ Wrapper_print e wrapper,
                                 diags_of := diags_of st @ ds1 @ ds2 @ ds3\<rparr>;
                       st2 = emit_wrapper_func_decl e st1 n2 wname
                   in case cxx_class_wrapper_of st2 of
                        None \<Rightarrow> st2
                      | Some w \<Rightarrow>
                          (case emit_member_function e w (cxx_wrappers_of st2) (diags_of st2) n2 of
                             (w1, cxx1, diags1) \<Rightarrow>
                               st2\<lparr>cxx_class_wrapper_of := Some w1, cxx_wrappers_of := cxx1,
                                   diags_of := diags1\<rparr>))))"

text \<open>A function with a variable argument list: \<open>void log(int level, ...)\<close>.\<close>

definition vararg_log :: node where
  "vararg_log =
     Node [''name'' \<mapsto> ''log'', ''sym:name'' \<mapsto> ''log'', ''type'' \<mapsto> ''void'']
          [[''name'' \<mapsto> ''level'', ''type'' \<mapsto> ''int'',
            ''tmap:ctype'' \<mapsto> ''int'', ''tmap:in'' \<mapsto> ''arg1 = $input;''],
           [''type'' \<mapsto> ''v(...)'']] None []"

section \<open>The generated move operations\<close>

text \<open>
  What the move operations written by the destructor of \<open>cxx_class_wrapper\<close> do is read off
  the text that \<open>dtor_move\<close> writes: the text is parsed into the two special members of the
  class, and these are run on a store of facade objects.
\<close>

subsection \<open>Reading the emitted text\<close>

fun strip_prefix :: "string \<Rightarrow> string \<Rightarrow> string option" where
  "strip_prefix [] s = Some s"
| "strip_prefix (p # ps) [] = None"
| "strip_prefix (p # ps) (c # s) = (if p = c then strip_prefix ps s else None)"

definition strip_suffix :: "string \<Rightarrow> string \<Rightarrow> string option" where
  "strip_suffix q s = map_option rev (strip_prefix (rev q) (rev s))"

text \<open>The text before and after the first occurrence of a separator.\<close>

fun split_at :: "string \<Rightarrow> string \<Rightarrow> (string \<times> string) option" where
  "split_at sep [] = (if sep = [] then Some ([], []) else None)"
| "split_at sep (c # s) =
     (case strip_prefix sep (c # s) of
        Some r \<Rightarrow> Some ([], r)
      | None \<Rightarrow> map_option (\<lambda>(a, b). (c # a, b)) (split_at sep s))"

text \<open>
  The members that the text mentions: the C pointer and the ownership flag, of the object
  itself or of the argument \<open>obj\<close>.
\<close>

datatype member_field = F_self | F_owns

datatype object_ref = This | Obj

datatype expr = Lval object_ref member_field | Lit bool

datatype stmt = Assign object_ref member_field expr | Return_this

datatype special_member = Defaulted | Defined "stmt list"

definition field_of :: "string \<Rightarrow> member_field option" where
  "field_of s =
     (if s = ''swig_self_'' then Some F_self
      else if s = ''swig_owns_self_'' then Some F_owns
      else None)"

definition lval_of :: "string \<Rightarrow> (object_ref \<times> member_field) option" where
  "lval_of s =
     (case strip_prefix ''obj.'' s of
        Some f \<Rightarrow> map_option (Pair Obj) (field_of f)
      | None \<Rightarrow> map_option (Pair This) (field_of s))"

definition expr_of :: "string \<Rightarrow> expr option" where
  "expr_of s =
     (if s = ''false'' then Some (Lit False)
      else if s = ''true'' then Some (Lit True)
      else map_option (\<lambda>(r, f). Lval r f) (lval_of s))"

text \<open>A statement \<open>lvalue = expression\<close> or \<open>return *this\<close>, without its semicolon.\<close>

definition stmt_of :: "string \<Rightarrow> stmt option" where
  "stmt_of s =
     (if s = ''return *this'' then Some Return_this
      else (case split_at '' = '' s of
              None \<Rightarrow> None
            | Some (l, r) \<Rightarrow>
                (case (lval_of l, expr_of r) of
                   (Some (t, f), Some x) \<Rightarrow> Some (Assign t f x)
                 | _ \<Rightarrow> None)))"

text \<open>
  The statements of a body, each followed by a semicolon and a space. The first argument
  bounds the number of statements.
\<close>

fun stmts_of :: "nat \<Rightarrow> string \<Rightarrow> stmt list option" where
  "stmts_of 0 s = (if s = [] then Some [] else None)"
| "stmts_of (Suc k) s =
     (if s = [] then Some []
      else (case split_at ''; '' s of
              None \<Rightarrow> None
            | Some (a, r) \<Rightarrow>
                (case (stmt_of a, stmts_of k r) of
                   (Some x, Some xs) \<Rightarrow> Some (x # xs)
                 | _ \<Rightarrow> None)))"

text \<open>
  A member initializer \<open>member{expression}\<close> initializes a member of the object itself, and
  the initializers of a list are separated by a comma and a space. The initializers of the
  text are in the order in which the class declares the two members, which is the order in
  which they run.
\<close>

definition init_of :: "string \<Rightarrow> stmt option" where
  "init_of s =
     (case split_at ''{'' s of
        None \<Rightarrow> None
      | Some (m, r) \<Rightarrow>
          (case (field_of m, Option.bind (strip_suffix ''}'' r) expr_of) of
             (Some f, Some x) \<Rightarrow> Some (Assign This f x)
           | _ \<Rightarrow> None))"

fun inits_of :: "nat \<Rightarrow> string \<Rightarrow> stmt list option" where
  "inits_of 0 s = None"
| "inits_of (Suc k) s =
     (case split_at '', '' s of
        None \<Rightarrow> map_option (\<lambda>x. [x]) (init_of s)
      | Some (a, r) \<Rightarrow>
          (case (init_of a, inits_of k r) of
             (Some x, Some xs) \<Rightarrow> Some (x # xs)
           | _ \<Rightarrow> None))"

text \<open>
  What follows the parameter list of a special member: \<open>= default;\<close>, or \<open>noexcept\<close>, the
  member initializers if there are any, and the body between braces.
\<close>

definition special_of :: "string \<Rightarrow> special_member option" where
  "special_of s =
     (if s = '' = default;'' then Some Defaulted
      else (case strip_prefix '' noexcept'' s of
              None \<Rightarrow> None
            | Some r \<Rightarrow>
                (case strip_prefix '' : '' r of
                   Some r1 \<Rightarrow>
                     (case split_at '' { '' r1 of
                        None \<Rightarrow> None
                      | Some (inits, body) \<Rightarrow>
                          (case (inits_of (length inits) inits,
                                 Option.bind (strip_suffix ''}'' body)
                                   (\<lambda>b. stmts_of (length b) b)) of
                             (Some xs, Some ys) \<Rightarrow> Some (Defined (xs @ ys))
                           | _ \<Rightarrow> None))
                 | None \<Rightarrow>
                     map_option Defined
                       (Option.bind (Option.bind (strip_prefix '' { '' r) (strip_suffix ''}''))
                          (\<lambda>b. stmts_of (length b) b)))))"

text \<open>
  The two lines that \<open>dtor_move\<close> writes for a class \<open>C\<close>: the move constructor
  \<open>C(C&& obj)\<close> and the move assignment \<open>C& operator=(C&& obj)\<close>.
\<close>

definition parse_moves :: "string \<Rightarrow> string \<Rightarrow> (special_member \<times> special_member) option" where
  "parse_moves c text =
     (case strip_prefix (cindent @ c @ ''('' @ c @ ''&& obj)'') text of
        None \<Rightarrow> None
      | Some r1 \<Rightarrow>
          (case split_at nl r1 of
             None \<Rightarrow> None
           | Some (ctor_text, r2) \<Rightarrow>
               (case strip_prefix (cindent @ c @ ''& operator=('' @ c @ ''&& obj)'') r2 of
                  None \<Rightarrow> None
                | Some r3 \<Rightarrow>
                    (case split_at nl r3 of
                       None \<Rightarrow> None
                     | Some (assign_text, r4) \<Rightarrow>
                         if r4 \<noteq> [] then None
                         else (case (special_of ctor_text, special_of assign_text) of
                                 (Some mc, Some ma) \<Rightarrow> Some (mc, ma)
                               | _ \<Rightarrow> None)))))"

text \<open>The move operations of the facade of a class, read from what \<open>dtor_move\<close> writes.\<close>

definition class_moves :: "cxx_class_wrapper \<Rightarrow> (special_member \<times> special_member) option" where
  "class_moves w =
     (case class_node w of
        None \<Rightarrow> None
      | Some cn \<Rightarrow>
          (case (Getattr cn ''sym:name'', dtor_move w cn (Some [])) of
             (Some c, Some text) \<Rightarrow> parse_moves c text
           | _ \<Rightarrow> None))"

subsection \<open>Running the move operations\<close>

text \<open>
  The objects of the generated facade classes: each holds the C pointer and the ownership
  flag, which the class without base declares (a class with a base declares no members of
  its own). Objects live in a store, since the move operations write to two objects that
  a caller may choose to be the same.
\<close>

record facade_object =
  swig_self :: nat
  swig_owns_self :: bool

type_synonym store = "nat \<Rightarrow> facade_object"

datatype member_value = Ptr nat | Flag bool

definition address :: "nat \<Rightarrow> nat \<Rightarrow> object_ref \<Rightarrow> nat" where
  "address this obj r = (case r of This \<Rightarrow> this | Obj \<Rightarrow> obj)"

definition eval_expr :: "store \<Rightarrow> nat \<Rightarrow> nat \<Rightarrow> expr \<Rightarrow> member_value" where
  "eval_expr s this obj x =
     (case x of
        Lit b \<Rightarrow> Flag b
      | Lval r F_self \<Rightarrow> Ptr (swig_self (s (address this obj r)))
      | Lval r F_owns \<Rightarrow> Flag (swig_owns_self (s (address this obj r))))"

text \<open>A pointer is stored in the pointer, a boolean in the flag; nothing else is well typed.\<close>

definition store_member :: "store \<Rightarrow> nat \<Rightarrow> member_field \<Rightarrow> member_value \<Rightarrow> store option" where
  "store_member s a f v =
     (case (f, v) of
        (F_self, Ptr p) \<Rightarrow> Some (s(a := (s a)\<lparr>swig_self := p\<rparr>))
      | (F_owns, Flag b) \<Rightarrow> Some (s(a := (s a)\<lparr>swig_owns_self := b\<rparr>))
      | _ \<Rightarrow> None)"

fun exec_stmts :: "stmt list \<Rightarrow> store \<Rightarrow> nat \<Rightarrow> nat \<Rightarrow> store option" where
  "exec_stmts [] s this obj = Some s"
| "exec_stmts (Return_this # xs) s this obj = Some s"
| "exec_stmts (Assign r f x # xs) s this obj =
     (case store_member s (address this obj r) f (eval_expr s this obj x) of
        None \<Rightarrow> None
      | Some s1 \<Rightarrow> exec_stmts xs s1 this obj)"

text \<open>
  A class and the classes it derives from, one after the other: the base that the facade of
  a class names is the class of the next facade.
\<close>

definition facade_name :: "cxx_class_wrapper \<Rightarrow> string option" where
  "facade_name w = Option.bind (class_node w) (\<lambda>cn. Getattr cn ''sym:name'')"

definition derives_from :: "cxx_class_wrapper \<Rightarrow> cxx_class_wrapper list \<Rightarrow> bool" where
  "derives_from w ws =
     (case (first_base w, ws) of
        (Some fb, w1 # ws1) \<Rightarrow>
          Getattr fb ''sym:name'' \<noteq> None \<and> facade_name w1 = Getattr fb ''sym:name''
      | _ \<Rightarrow> False)"

text \<open>
  A defaulted move operation of a class with a base and no members of its own moves the base
  subobject with the operation of the base class; a defined one runs its statements.
\<close>

fun run_move_ctor :: "cxx_class_wrapper list \<Rightarrow> store \<Rightarrow> nat \<Rightarrow> nat \<Rightarrow> store option" where
  "run_move_ctor [] s this obj = None"
| "run_move_ctor (w # ws) s this obj =
     (case class_moves w of
        None \<Rightarrow> None
      | Some (Defaulted, ma) \<Rightarrow>
          if derives_from w ws then run_move_ctor ws s this obj else None
      | Some (Defined body, ma) \<Rightarrow> exec_stmts body s this obj)"

fun run_move_assign :: "cxx_class_wrapper list \<Rightarrow> store \<Rightarrow> nat \<Rightarrow> nat \<Rightarrow> store option" where
  "run_move_assign [] s this obj = None"
| "run_move_assign (w # ws) s this obj =
     (case class_moves w of
        None \<Rightarrow> None
      | Some (mc, Defaulted) \<Rightarrow>
          if derives_from w ws then run_move_assign ws s this obj else None
      | Some (mc, Defined body) \<Rightarrow> exec_stmts body s this obj)"

text \<open>
  A chain of generated facades: every class has a facade and a name, every class but the
  last derives from the next one, and the last has no base.
\<close>

fun facade_chain :: "cxx_class_wrapper list \<Rightarrow> bool" where
  "facade_chain [] = False"
| "facade_chain [w] = (facade_name w \<noteq> None \<and> first_base w = None)"
| "facade_chain (w # w1 # ws) =
     (facade_name w \<noteq> None \<and> derives_from w (w1 # ws) \<and> facade_chain (w1 # ws))"

text \<open>
  Examples: the facades of \<open>E\<close> and of its base \<open>A\<close>, as the constructor of
  \<open>cxx_class_wrapper\<close> opens them, and a store with a non-owning object at 1 and an owning
  object at 2.
\<close>

definition facade_E :: cxx_class_wrapper where
  "facade_E = fst (cxx_class_wrapper_ctor example_cxx [] class_E)"

definition facade_A :: cxx_class_wrapper where
  "facade_A = fst (cxx_class_wrapper_ctor example_cxx [] class_A)"

definition two_objects :: store where
  "two_objects =
     (\<lambda>a. if a = 2 then \<lparr>swig_self = 7, swig_owns_self = True\<rparr>
          else \<lparr>swig_self = 3, swig_owns_self = False\<rparr>)"

section \<open>The traversal\<close>

text \<open>
  Modelled from the spec: the traversal that visits the declarations and calls the emitters
  (\<open>Language::top\<close>, \<open>Language::classHandler\<close> and the handlers between them and
  \<open>functionWrapper\<close>) belongs to the base class of the module and is not part of this
  file. The specification has one top-down traversal of the tree, in which "at each function,
  class, enum, or constant node, the relevant emitter component is invoked", the members
  of a class being visited between the opening and the closing of its facade, and a member of
  an unsupported kind being skipped. So a declaration with \<open>feature:ignore\<close> is passed over,
  an enum goes to \<open>enumDeclaration\<close>, a function, constructor or destructor goes to
  \<open>functionWrapperCPPSpecific\<close> as it stands in the tree (with its parent, and with no
  overloads), and the node is kept as the emitter leaves it. Variables and constants are not
  visited here.
\<close>

definition function_like :: "node \<Rightarrow> bool" where
  "function_like c =
     (Getattr c ''kind'' = Some ''function'' \<or> Getattr c ''nodeType'' = Some ''constructor'' \<or>
      Getattr c ''nodeType'' = Some ''destructor'')"

definition emit_member :: "env \<Rightarrow> node option \<Rightarrow> C_state \<Rightarrow> node \<Rightarrow> node \<times> C_state" where
  "emit_member e parent st c =
     (if GetFlag (Some c) ''feature:ignore'' then (c, st)
      else if Getattr c ''nodeType'' = Some ''enum'' then (c, enumDeclaration e st c)
      else if function_like c then
        (functionWrapperCPPSpecific_node e st parent None c,
         functionWrapperCPPSpecific e st parent None c)
      else (c, st))"

fun emit_children :: "env \<Rightarrow> node option \<Rightarrow> C_state \<Rightarrow> node list \<Rightarrow> node list \<times> C_state" where
  "emit_children e parent st [] = ([], st)"
| "emit_children e parent st (c # cs) =
     (case emit_member e parent st c of
        (c1, st1) \<Rightarrow>
          (case emit_children e parent st1 cs of
             (cs1, st2) \<Rightarrow> (c1 # cs1, st2)))"

text \<open>
  Modelled from the spec: the members of a class (\<open>Language::classHandler\<close>, see above) are
  visited in order with the class as the current class; afterwards the current class is
  what it was before.
\<close>

definition Language_classHandler ::
  "env \<Rightarrow> cxx_class_wrapper \<Rightarrow> node \<Rightarrow> C_state \<Rightarrow> cxx_class_wrapper \<times> node \<times> C_state"
where
  "Language_classHandler e w n st =
     (case emit_children e (Some n) (st\<lparr>getCurrentClass := Some n\<rparr>) (children n) of
        (cs, st1) \<Rightarrow>
          (case cxx_class_wrapper_of st1 of Some w1 \<Rightarrow> w1 | None \<Rightarrow> w,
           Node (attrs n) (parms n) (bases n) cs,
           st1\<lparr>getCurrentClass := getCurrentClass st\<rparr>))"

text \<open>
  Modelled from the spec: the declarations of a module (\<open>Language::top\<close>, see above) are
  visited in order, a class going to \<open>classHandler\<close>.
\<close>

definition emit_one :: "env \<Rightarrow> C_state \<Rightarrow> node \<Rightarrow> node \<times> C_state" where
  "emit_one e st n =
     (if GetFlag (Some n) ''feature:ignore'' then (n, st)
      else if Getattr n ''nodeType'' = Some ''class''
      then classHandler e (Language_classHandler e) st n
      else emit_member e None st n)"

fun emit_tree :: "env \<Rightarrow> C_state \<Rightarrow> node list \<Rightarrow> node list \<times> C_state" where
  "emit_tree e st [] = ([], st)"
| "emit_tree e st (n # ns) =
     (case emit_one e st n of
        (n1, st1) \<Rightarrow>
          (case emit_tree e st1 ns of
             (ns1, st2) \<Rightarrow> (n1 # ns1, st2)))"

text \<open>
  The text that a run leaves in the sections of the C header, of the implementation and of
  the facade.
\<close>

definition output_text :: "C_state \<Rightarrow> string list \<times> string option list" where
  "output_text st =
     ([sect_wrappers_types st, sect_wrappers_decl st, sect_wrappers st],
      [sect_types (cxx_wrappers_of st), sect_decls (cxx_wrappers_of st),
       sect_impls (cxx_wrappers_of st)])"

subsection \<open>Inherited members with one origin\<close>

text \<open>The test of the flattening loop for a member of a base class.\<close>

definition inheritable :: "node \<Rightarrow> bool" where
  "inheritable nd =
     ((Getattr nd ''kind'' = Some ''variable'' \<or> Getattr nd ''kind'' = Some ''function'') \<and>
      Getattr nd ''access'' = Some ''public'' \<and> Getattr nd ''storage'' \<noteq> Some ''static'' \<and>
      Getattr nd ''sym:name'' \<noteq> None \<and> Getattr nd ''name'' \<noteq> Some ''operator ='')"

definition base_list :: "node \<Rightarrow> node list" where
  "base_list n = (case bases n of None \<Rightarrow> [] | Some baselist \<Rightarrow> baselist)"

text \<open>
  A class as the front end gives it has no name clash when none of its own members is marked
  as inherited and no two bases of different names have an inheritable member of the same
  name.
\<close>

definition no_clash :: "node \<Rightarrow> bool" where
  "no_clash n =
     ((\<forall>c \<in> set (children n). Getattr c ''c:inherited_from'' = None) \<and>
      (\<forall>b \<in> set (base_list n). \<forall>b' \<in> set (base_list n).
         \<forall>m \<in> set (children b). \<forall>m' \<in> set (children b').
           inheritable m \<and> inheritable m' \<and> Getattr m ''name'' = Getattr m' ''name'' \<longrightarrow>
           Getattr b ''name'' = Getattr b' ''name'' \<or> Getattr b ''name'' = None \<or>
           Getattr b' ''name'' = None))"

text \<open>
  The action stored on a function is left as it is by the rewriting of
  \<open>functionWrapperCPPSpecific\<close>: there is none, or it has nothing to replace.
\<close>

definition action_stable :: "node \<Rightarrow> bool" where
  "action_stable c =
     (case Getattr c ''wrap:action'' of
        None \<Rightarrow> True
      | Some action \<Rightarrow> rewrite_action c action = action)"

text \<open>The lookup of the \<open>ctype\<close> typemap of a node does not read the name of its wrapper.\<close>

definition ctype_ignores_wrap_name :: "env \<Rightarrow> bool" where
  "ctype_ignores_wrap_name e =
     (\<forall>m wname. ctype_lookup e (Setattr m ''wrap:name'' wname) = ctype_lookup e m)"

text \<open>A declaration that can be emitted again: a class without clash, and stable actions.\<close>

definition emits_again :: "node \<Rightarrow> bool" where
  "emits_again n =
     (if Getattr n ''nodeType'' = Some ''class''
      then no_clash n \<and> (\<forall>c \<in> set (children n). action_stable c)
      else action_stable n)"

text \<open>
  Examples: a struct \<open>S\<close> that derives from two empty structs \<open>P\<close> and \<open>Q\<close> and
  declares the public enum \<open>Color { RED }\<close>; and \<open>D\<close> and \<open>E\<close> as top-level classes
  of a module.
\<close>

definition S_RED :: node where
  "S_RED = Node [''name'' \<mapsto> ''RED'', ''sym:name'' \<mapsto> ''RED'', ''firstenumitem'' \<mapsto> ''1'',
                 ''ismember'' \<mapsto> ''1'', ''access'' \<mapsto> ''public''] [] None []"

definition S_Color :: node where
  "S_Color = Node [''nodeType'' \<mapsto> ''enum'', ''name'' \<mapsto> ''Color'', ''sym:name'' \<mapsto> ''Color'',
                   ''ismember'' \<mapsto> ''1'', ''access'' \<mapsto> ''public''] [] None [S_RED]"

definition struct_P :: node where
  "struct_P = Node [''nodeType'' \<mapsto> ''class'', ''name'' \<mapsto> ''P'', ''sym:name'' \<mapsto> ''P''] [] None []"

definition struct_Q :: node where
  "struct_Q = Node [''nodeType'' \<mapsto> ''class'', ''name'' \<mapsto> ''Q'', ''sym:name'' \<mapsto> ''Q''] [] None []"

definition struct_S :: node where
  "struct_S = Node [''nodeType'' \<mapsto> ''class'', ''name'' \<mapsto> ''S'', ''sym:name'' \<mapsto> ''S'']
     [] (Some [struct_P, struct_Q]) [S_Color]"

definition module_D :: "node list" where
  "module_D = [Setattr class_D ''nodeType'' ''class'']"

definition module_E :: "node list" where
  "module_E = [Setattr class_E ''nodeType'' ''class'']"

section \<open>Basic facts\<close>

lemma Printv_sect_Some: "Printv_sect (Some d) args = Some (d @ Printv_args args)"
  by (simp add: Printv_sect_def Printv_def)

lemma emit_member_function_class_node:
  "emit_member_function e w cxx diags n = (w1, cxx1, diags1) \<Longrightarrow>
   class_node w1 = class_node w \<and> first_base w1 = first_base w"
  by (auto simp: emit_member_function_def Let_def
      split: option.splits if_splits prod.splits sum.splits)

lemma emit_members_class_node:
  "emit_members e w cxx diags ns = (w1, cxx1, diags1) \<Longrightarrow>
   class_node w1 = class_node w \<and> first_base w1 = first_base w"
proof (induction ns arbitrary: w cxx diags)
  case Nil
  then show ?case by simp
next
  case (Cons n ns)
  obtain wa cxxa diagsa where s: "emit_member_function e w cxx diags n = (wa, cxxa, diagsa)"
    by (cases "emit_member_function e w cxx diags n") auto
  with Cons.prems have "emit_members e wa cxxa diagsa ns = (w1, cxx1, diags1)" by simp
  from Cons.IH[OF this] emit_member_function_class_node[OF s] show ?case by simp
qed

lemma skip_self_ctor: "skip_self n False = (parms n, [])"
  by (simp add: skip_self_def split: list.splits)


section \<open>Names of overloaded functions\<close>

text \<open>
  Two facts in favour of the mangling: the suffixes of parameter lists made of the builtin
  types are distinct whenever the lists are, and a const member gets a name different
  from the one of its non-const overload with the same parameters.
\<close>

lemma builtin_split:
  "SwigType_isbuiltin t \<Longrightarrow> split_type 0 [] [] t = ([], t)"
  unfolding SwigType_isbuiltin_def
  by (elim disjE | simp)+

lemma builtin_shape:
  "SwigType_isbuiltin t \<Longrightarrow> take 2 t \<noteq> ''p.'' \<and> take 2 t \<noteq> ''m('' \<and> t \<noteq> []"
  unfolding SwigType_isbuiltin_def
  by (elim disjE | simp)+

lemma builtin_mangled:
  assumes "SwigType_isbuiltin t"
      and "SwigType_typedef_resolve_all e t = None \<or> SwigType_typedef_resolve_all e t = Some t"
  shows "get_mangled_type e t = take 1 t"
proof -
  have r: "(case SwigType_typedef_resolve_all e t of Some tdtype \<Rightarrow> tdtype | None \<Rightarrow> t) = t"
    using assms(2) by (elim disjE) simp_all
  show ?thesis
    using assms(1) builtin_split[OF assms(1)] builtin_shape[OF assms(1)]
    by (simp add: get_mangled_type_def r mangle_base_def
        SwigType_prefix_def SwigType_base_def SwigType_ispointer_def SwigType_ismemberpointer_def
        Let_def)
qed

lemma builtin_first_letter:
  assumes "SwigType_isbuiltin t" and "SwigType_isbuiltin u" and "take 1 t = take 1 u"
  shows "t = u"
  using assms unfolding SwigType_isbuiltin_def
  by (elim disjE | simp)+


lemma builtin_piece:
  assumes "SwigType_isbuiltin t"
      and "SwigType_typedef_resolve_all e t = None \<or> SwigType_typedef_resolve_all e t = Some t"
  shows "\<exists>a. take 1 t = [a] \<and> mangled_suffix e (Some t # ts) = CHR ''_'' # a # mangled_suffix e ts"
proof -
  from builtin_shape[OF assms(1)] obtain a r where t: "t = a # r" by (cases t) auto
  have "get_mangled_type e t = [a]"
    using builtin_mangled[OF assms] t by simp
  with t show ?thesis
    by (simp add: mangled_suffix_def str_of_def)
qed

lemma builtin_suffix_injective:
  assumes "\<forall>t\<in>set ts \<union> set us. SwigType_isbuiltin t \<and>
             (SwigType_typedef_resolve_all e t = None \<or>
              SwigType_typedef_resolve_all e t = Some t)"
      and "mangled_suffix e (map Some ts) = mangled_suffix e (map Some us)"
  shows "ts = us"
  using assms
proof (induction ts arbitrary: us)
  case Nil
  show ?case
  proof (cases us)
    case Nil
    then show ?thesis by simp
  next
    case (Cons u us')
    then have "SwigType_isbuiltin u"
      "SwigType_typedef_resolve_all e u = None \<or> SwigType_typedef_resolve_all e u = Some u"
      using Nil.prems(1) by auto
    from builtin_piece[OF this, of "map Some us'"] Nil.prems(2) Cons
    show ?thesis by (auto simp: mangled_suffix_def)
  qed
next
  case (Cons t ts)
  have bt: "SwigType_isbuiltin t"
    "SwigType_typedef_resolve_all e t = None \<or> SwigType_typedef_resolve_all e t = Some t"
    using Cons.prems(1) by auto
  obtain a where a: "take 1 t = [a]"
    "mangled_suffix e (Some t # map Some ts) = CHR ''_'' # a # mangled_suffix e (map Some ts)"
    using builtin_piece[OF bt] by blast
  show ?case
  proof (cases us)
    case Nil
    with Cons.prems(2) a show ?thesis by (simp add: mangled_suffix_def)
  next
    case (Cons u us')
    have bu: "SwigType_isbuiltin u"
      "SwigType_typedef_resolve_all e u = None \<or> SwigType_typedef_resolve_all e u = Some u"
      using Cons.prems(1) Cons by auto
    obtain b where b: "take 1 u = [b]"
      "mangled_suffix e (Some u # map Some us') = CHR ''_'' # b # mangled_suffix e (map Some us')"
      using builtin_piece[OF bu] by blast
    have "a = b" and rest: "mangled_suffix e (map Some ts) = mangled_suffix e (map Some us')"
      using Cons.prems(2) Cons a(2) b(2) by simp_all
    then have "t = u" using builtin_first_letter[OF bt(1) bu(1)] a(1) b(1) by simp
    moreover have "ts = us'"
      using Cons.IH[of us'] Cons.prems(1) Cons rest by auto
    ultimately show ?thesis using Cons by simp
  qed
qed

lemma suffix_of_types:
  "functionWrapperAppendOverloaded e name ps =
     name @ mangled_suffix e (map (\<lambda>p. p ''type'') ps)"
  by (simp add: functionWrapperAppendOverloaded_def mangled_suffix_def Printv_def comp_def)

lemma const_overload_disambiguated:
  assumes "Checkattr n ''ismember'' ''1''" and "Checkattr m ''ismember'' ''1''"
      and "\<not> Checkattr n ''nodeType'' ''constructor''"
      and "\<not> Checkattr m ''nodeType'' ''constructor''"
      and "Getattr n ''cplus:staticbase'' = None" and "Getattr m ''cplus:staticbase'' = None"
      and "Getattr n ''copy_constructor'' = None" and "Getattr m ''copy_constructor'' = None"
      and "parms n = pn # ps" and "parms m = pm # ps'"
      and "map (\<lambda>p. p ''type'') ps = map (\<lambda>p. p ''type'') ps'"
      and "Getattr n ''sym:name'' = Getattr m ''sym:name''"
      and "Getattr n ''decl'' = Some dn" and "SwigType_isconst dn"
      and "Getattr m ''decl'' = Some (drop 9 dn)" and "\<not> SwigType_isconst (drop 9 dn)"
      and "m \<in> set overloads"
  shows "overloaded_name e (Some overloads) n \<noteq> overloaded_name e (Some overloads) m"
proof -
  let ?s = "str_of (Getattr m ''sym:name'')"
  let ?suf = "mangled_suffix e (map (\<lambda>p. p ''type'') ps')"
  have n: "overloaded_name e (Some overloads) n = (?s @ ''_const'') @ ?suf"
    using assms by (auto simp: overloaded_name_def suffix_of_types str_of_def Let_def)
  have m: "overloaded_name e (Some overloads) m = ?s @ ?suf"
    using assms by (auto simp: overloaded_name_def suffix_of_types str_of_def Let_def)
  have "length ((?s @ ''_const'') @ ?suf) \<noteq> length (?s @ ?suf)" by simp
  then have "(?s @ ''_const'') @ ?suf \<noteq> ?s @ ?suf" by metis
  with n m show ?thesis by simp
qed

lemmas mangle_defs = get_mangled_type_def mangle_base_def mangle_prefix_def
  SwigType_prefix_def SwigType_base_def SwigType_ispointer_def SwigType_ismemberpointer_def
  SwigType_isfunction_def SwigType_isenum_def SwigType_del_pointer_def SwigType_isbuiltin_def
  example_env_def Let_def

text \<open>
  Claim C1 does not hold of the code: the suffixes of two overloads that differ in their
  parameter types can be equal. A \<open>float\<close> parameter is mangled to the first letter of its
  type, \<open>f\<close>, and a pointer to a function is mangled to \<open>f\<close> as well, so the overloads
  \<open>void g(float)\<close> and \<open>void g(void (*)(int))\<close> both get the suffix \<open>_f\<close> and the
  same wrapper name.
\<close>

theorem C1_float_and_function_pointer_collide:
  "get_mangled_type example_env ''float'' = ''f'' \<and>
   get_mangled_type example_env ''p.f(int).void'' = ''f'' \<and>
   overloaded_name example_env (Some [g_float, g_callback]) g_float = ''g_f'' \<and>
   overloaded_name example_env (Some [g_float, g_callback]) g_callback = ''g_f'' \<and>
   getFunctionWrapperName example_env example_state None g_float
     (overloaded_name example_env (Some [g_float, g_callback]) g_float) =
   getFunctionWrapperName example_env example_state None g_callback
     (overloaded_name example_env (Some [g_float, g_callback]) g_callback)"
proof -
  have a: "get_mangled_type example_env ''float'' = ''f''"
    by (simp add: mangle_defs)
  have b: "get_mangled_type example_env ''p.f(int).void'' = ''f''"
    by (simp add: mangle_defs)
  have c: "overloaded_name example_env (Some [g_float, g_callback]) g_float = ''g_f''"
    using a by (simp add: overloaded_name_def g_float_def Getattr_def Checkattr_def str_of_def
        functionWrapperAppendOverloaded_def Printv_def Let_def)
  have d: "overloaded_name example_env (Some [g_float, g_callback]) g_callback = ''g_f''"
    using b by (simp add: overloaded_name_def g_callback_def Getattr_def Checkattr_def str_of_def
        functionWrapperAppendOverloaded_def Printv_def Let_def)
  have "getFunctionWrapperName example_env example_state None g_float ''g_f'' =
        getFunctionWrapperName example_env example_state None g_callback ''g_f''"
    by (simp add: getFunctionWrapperName_def g_float_def g_callback_def Checkattr_def
        example_state_def GetFlag_def Let_def)
  with a b c d show ?thesis by simp
qed

section \<open>Multiple inheritance\<close>

lemma base_loop_multiple:
  "snd (base_loop bl fb) =
     (2 \<le> length (filter (\<lambda>b. \<not> Checkattr b ''feature:ignore'' ''1'') bl) +
           (if fb = None then 0 else 1))"
  by (induction bl arbitrary: fb) auto

lemma base_loop_first:
  "fst (base_loop bl fb) =
     (case fb of Some b \<Rightarrow> Some b
      | None \<Rightarrow> (case filter (\<lambda>b. \<not> Checkattr b ''feature:ignore'' ''1'') bl of
                  [] \<Rightarrow> None | b # bs \<Rightarrow> Some b))"
  by (induction bl arbitrary: fb) (auto split: option.splits)

text \<open>
  What holds of the claim. With facade generation enabled, the constructor of
  \<open>cxx_class_wrapper\<close> leaves the facade sections as they are for a class with two or more
  bases that are not ignored, reports one warning that names the class, and sets no class
  node, so that neither a member function nor the destructor writes anything.
\<close>

lemma ctor_multiple_inheritance:
  assumes "is_initialized cxx" and "2 \<le> length (usable_bases n)"
  shows "\<exists>fb. cxx_class_wrapper_ctor cxx diags n =
           (\<lparr>class_node = None, first_base = fb, has_copy_ctor = False\<rparr>, cxx,
            diags @ [multiple_inheritance_warning n])"
proof -
  obtain bl where bl: "bases n = Some bl"
    using assms(2) by (cases "bases n") (auto simp: usable_bases_def)
  have "snd (base_loop bl None) = True"
    using assms(2) bl by (simp add: base_loop_multiple usable_bases_def)
  then obtain fb where "base_loop bl None = (fb, True)"
    by (cases "base_loop bl None") auto
  then show ?thesis
    using assms(1) bl by (simp add: cxx_class_wrapper_ctor_def)
qed

lemma member_function_of_skipped_class:
  "class_node w = None \<Longrightarrow> emit_member_function e w cxx diags n = (w, cxx, diags)"
  by (simp add: emit_member_function_def)

lemma dtor_of_skipped_class: "class_node w = None \<Longrightarrow> cxx_class_wrapper_dtor e w cxx = cxx"
  by (simp add: cxx_class_wrapper_dtor_def)

text \<open>With at most one such base the facade is opened, with no diagnostic.\<close>

lemma ctor_single_inheritance:
  assumes "is_initialized cxx" and "length (usable_bases n) \<le> 1"
  shows "cxx_class_wrapper_ctor cxx diags n =
           (\<lparr>class_node = Some n,
             first_base = (case usable_bases n of [] \<Rightarrow> None | b # bs \<Rightarrow> Some b),
             has_copy_ctor = False\<rparr>,
            open_class cxx n (case usable_bases n of [] \<Rightarrow> None | b # bs \<Rightarrow> Some b)
              (case bases n of
                 None \<Rightarrow> []
               | Some bl \<Rightarrow>
                   Printv [] [Some '' : public '',
                     case (case usable_bases n of [] \<Rightarrow> None | b # bs \<Rightarrow> Some b) of
                       None \<Rightarrow> None | Some b \<Rightarrow> Getattr b ''sym:name'']),
            diags)"
proof (cases "bases n")
  case None
  then show ?thesis
    using assms by (simp add: cxx_class_wrapper_ctor_def usable_bases_def)
next
  case (Some bl)
  have "snd (base_loop bl None) = False"
    using assms(2) Some by (simp add: base_loop_multiple usable_bases_def)
  moreover have "fst (base_loop bl None) =
      (case usable_bases n of [] \<Rightarrow> None | b # bs \<Rightarrow> Some b)"
    using Some base_loop_first[of bl None] by (simp add: usable_bases_def)
  ultimately have "base_loop bl None =
      (case usable_bases n of [] \<Rightarrow> None | b # bs \<Rightarrow> Some b, False)"
    by (cases "base_loop bl None") auto
  then show ?thesis
    using assms Some by (simp add: cxx_class_wrapper_ctor_def)
qed

text \<open>The opaque typedef of the C header is written for every class, whatever its bases.\<close>

lemma classHandler_open_typedef:
  "sect_wrappers_types (snd (snd (classHandler_open e st n))) =
     sect_wrappers_types st @ ''typedef struct SwigObj_'' @ fst (get_c_proxy_name e n) @
       '' '' @ fst (get_c_proxy_name e n) @ '';'' @ nl @ nl"
  by (simp add: classHandler_open_def Printv_def split: prod.splits)

text \<open>\<open>classHandler\<close> with the traversal of the members, step by step.\<close>

lemma classHandler_steps:
  assumes "classHandler_open e st n = (w, n2, st1)"
    and "emit_children e (Some n2) (st1\<lparr>getCurrentClass := Some n2\<rparr>) (children n2) = (cs, st2)"
  shows "classHandler e (Language_classHandler e) st n =
           (Node (attrs n2) (parms n2) (bases n2) cs,
            st2\<lparr>getCurrentClass := getCurrentClass st1,
                cxx_wrappers_of :=
                  cxx_class_wrapper_dtor e
                    (case cxx_class_wrapper_of st2 of Some w1 \<Rightarrow> w1 | None \<Rightarrow> w)
                    (cxx_wrappers_of st2),
                cxx_class_wrapper_of := cxx_class_wrapper_of st\<rparr>)"
  using assms by (simp add: classHandler_def Language_classHandler_def)

text \<open>The struct \<open>S\<close>, with its two bases, is opened without a facade.\<close>

lemma struct_S_open:
  "classHandler_open example_env example_state struct_S =
     (\<lparr>class_node = None, first_base = Some struct_P, has_copy_ctor = False\<rparr>,
      Setattr struct_S ''proxyname'' ''S'',
      example_state
        \<lparr>cxx_wrappers_of := example_cxx,
         diags_of := [multiple_inheritance_warning (Setattr struct_S ''proxyname'' ''S'')],
         cxx_class_wrapper_of :=
           Some \<lparr>class_node = None, first_base = Some struct_P, has_copy_ctor = False\<rparr>,
         sect_wrappers_types := ''typedef struct SwigObj_S S;'' @ nl @ nl\<rparr>)"
  by (simp add: classHandler_open_def get_c_proxy_name_def cxx_class_wrapper_ctor_def
      inherit_members_def example_env_def example_state_def example_cxx_def is_initialized_def
      struct_S_def struct_P_def struct_Q_def Getattr_def Checkattr_def Setattr_def str_of_def
      Printv_def Let_def)

text \<open>
  The enum nested in a class for which a \<open>cxx_class_wrapper\<close> object exists: its C++
  declaration goes to the section of the class declarations.
\<close>

lemma nested_Color_declared:
  assumes "is_initialized (cxx_wrappers_of st)" and "cxx_class_wrapper_of st \<noteq> None"
    and "\<not> ImportMode st" and "cplus_mode st = PUBLIC"
    and "getCurrentClass st = Some k" and "Getattr k ''proxyname'' = Some ''S''"
  shows "enumDeclaration example_env st S_Color =
     st\<lparr>sect_wrappers_types := sect_wrappers_types st @
           ''enum S_Color {'' @ nl @ ''  S_RED'' @ nl @ ''};'' @ nl @ nl,
        cxx_wrappers_of := (cxx_wrappers_of st)
          \<lparr>sect_decls := map_option
             (\<lambda>d. d @ ''  enum Color {'' @ nl @ ''    RED'' @ nl @ ''  };'' @ nl @ nl)
             (sect_decls (cxx_wrappers_of st))\<rparr>,
        diags_of := diags_of st, getCurrentClass := Some k\<rparr>"
  using assms
  by (simp add: enumDeclaration_def enum_open_def enum_close_c_def enum_close_cxx_def
      enum_flush_cxx_def enumvalueDeclaration_def get_c_proxy_name_def example_env_def
      S_Color_def S_RED_def cindent_def Getattr_def GetFlag_def Printv_def Printv_sect_def
      Let_def)

text \<open>
  Claim C2 does not hold of the code. The struct \<open>S\<close> has two bases, so its facade is
  skipped with a warning and nothing is written for it into the forward declarations and
  the implementations; but the traversal of its members still finds the
  \<open>cxx_class_wrapper\<close> object of the class set, and the C++ declaration of its nested enum,
  indented as a member of a class, is appended to the class declarations, where no class is
  open.
\<close>

theorem C2_nested_enum_of_skipped_class:
  "2 \<le> length (usable_bases struct_S) \<and>
   is_initialized (cxx_wrappers_of example_state) \<and>
   sect_decls (cxx_wrappers_of example_state) = Some [] \<and>
   diags_of (snd (classHandler example_env (Language_classHandler example_env) example_state
                    struct_S)) =
     [Swig_warning WARN_C_UNSUPPORTTED
        (''Multiple inheritance not supported yet, skipping C++ wrapper generation for S'' @ nl)] \<and>
   sect_types (cxx_wrappers_of (snd (classHandler example_env (Language_classHandler example_env)
                                       example_state struct_S))) = Some [] \<and>
   sect_impls (cxx_wrappers_of (snd (classHandler example_env (Language_classHandler example_env)
                                       example_state struct_S))) = Some [] \<and>
   sect_decls (cxx_wrappers_of (snd (classHandler example_env (Language_classHandler example_env)
                                       example_state struct_S))) =
     Some (''  enum Color {'' @ nl @ ''    RED'' @ nl @ ''  };'' @ nl @ nl)"
proof -
  define k where "k = Setattr struct_S ''proxyname'' ''S''"
  define w where "w = \<lparr>class_node = None, first_base = Some struct_P, has_copy_ctor = False\<rparr>"
  define st1 where "st1 = example_state
        \<lparr>cxx_wrappers_of := example_cxx,
         diags_of := [multiple_inheritance_warning k],
         cxx_class_wrapper_of := Some w,
         sect_wrappers_types := ''typedef struct SwigObj_S S;'' @ nl @ nl\<rparr>"
  define st where "st = st1\<lparr>getCurrentClass := Some k\<rparr>"
  have u: "length (usable_bases struct_S) = 2"
    by (simp add: usable_bases_def struct_S_def struct_P_def struct_Q_def Checkattr_def
        Getattr_def)
  have k: "children k = [S_Color]" "Getattr k ''proxyname'' = Some ''S''"
    "Getattr k ''sym:name'' = Some ''S''"
    by (simp_all add: k_def Setattr_def Getattr_def struct_S_def)
  have c: "\<not> GetFlag (Some S_Color) ''feature:ignore''" "Getattr S_Color ''nodeType'' = Some ''enum''"
    by (simp_all add: S_Color_def GetFlag_def Getattr_def)
  have s: "is_initialized (cxx_wrappers_of st)" "cxx_class_wrapper_of st \<noteq> None"
    "\<not> ImportMode st" "cplus_mode st = PUBLIC" "getCurrentClass st = Some k"
    by (simp_all add: st_def st1_def example_state_def example_cxx_def is_initialized_def)
  have o: "classHandler_open example_env example_state struct_S = (w, k, st1)"
    unfolding struct_S_open k_def w_def st1_def ..
  have e: "emit_children example_env (Some k) (st1\<lparr>getCurrentClass := Some k\<rparr>) (children k) =
           ([S_Color], enumDeclaration example_env st S_Color)"
    by (simp add: k emit_member_def c st_def)
  note d = nested_Color_declared[OF s k(2)]
  show ?thesis
    unfolding classHandler_steps[OF o e] d
    by (simp add: u st_def st1_def w_def example_state_def example_cxx_def is_initialized_def
        multiple_inheritance_warning_def k str_of_def cxx_class_wrapper_dtor_def)
qed

section \<open>Enums without elements\<close>

lemma enumvalueDeclaration_grows:
  "length (enum_decl (fst acc)) \<le>
     length (enum_decl (fst (enumvalueDeclaration e pfx ind acc c)))"
  by (cases acc)
     (auto simp: enumvalueDeclaration_def Let_def Printv_def split: option.splits prod.splits)

lemma enumvalueDeclaration_surviving:
  "surviving c \<Longrightarrow>
   length (enum_decl (fst acc)) <
     length (enum_decl (fst (enumvalueDeclaration e pfx ind acc c)))"
  by (cases acc)
     (auto simp: enumvalueDeclaration_def surviving_def Let_def Printv_def cindent_def
        split: option.splits prod.splits)

lemma enumvalueDeclaration_not_surviving:
  "\<not> surviving c \<Longrightarrow> \<not> GetFlag (Some c) ''feature:ignore'' \<Longrightarrow>
   enumvalueDeclaration e pfx ind acc c = acc"
  by (cases acc) (auto simp: enumvalueDeclaration_def surviving_def)

lemma Language_enumDeclaration_grows:
  "length (enum_decl (fst acc)) \<le>
     length (enum_decl (fst (Language_enumDeclaration e pfx ind acc cs)))"
proof (induction cs arbitrary: acc)
  case Nil
  then show ?case by simp
next
  case (Cons c cs)
  let ?acc1 = "if GetFlag (Some c) ''feature:ignore'' then acc
               else enumvalueDeclaration e pfx ind acc c"
  have "length (enum_decl (fst acc)) \<le> length (enum_decl (fst ?acc1))"
    using enumvalueDeclaration_grows[of acc e pfx ind c] by simp
  also have "\<dots> \<le> length (enum_decl (fst (Language_enumDeclaration e pfx ind ?acc1 cs)))"
    by (rule Cons.IH)
  finally show ?case by simp
qed

lemma Language_enumDeclaration_none_surviving:
  "\<forall>c\<in>set cs. \<not> surviving c \<Longrightarrow> Language_enumDeclaration e pfx ind acc cs = acc"
  by (induction cs arbitrary: acc) (auto simp: enumvalueDeclaration_not_surviving)

lemma Language_enumDeclaration_surviving:
  "\<exists>c\<in>set cs. surviving c \<Longrightarrow>
   length (enum_decl (fst acc)) <
     length (enum_decl (fst (Language_enumDeclaration e pfx ind acc cs)))"
proof (induction cs arbitrary: acc)
  case Nil
  then show ?case by simp
next
  case (Cons c cs)
  let ?acc1 = "if GetFlag (Some c) ''feature:ignore'' then acc
               else enumvalueDeclaration e pfx ind acc c"
  have g: "length (enum_decl (fst acc)) \<le> length (enum_decl (fst ?acc1))"
    using enumvalueDeclaration_grows[of acc e pfx ind c] by simp
  show ?case
  proof (cases "surviving c")
    case True
    then have "\<not> GetFlag (Some c) ''feature:ignore''" by (simp add: surviving_def)
    then have "length (enum_decl (fst acc)) < length (enum_decl (fst ?acc1))"
      using enumvalueDeclaration_surviving[OF True, of acc e pfx ind] by simp
    also have "\<dots> \<le> length (enum_decl (fst (Language_enumDeclaration e pfx ind ?acc1 cs)))"
      by (rule Language_enumDeclaration_grows)
    finally show ?thesis by simp
  next
    case False
    with Cons.prems have "\<exists>c\<in>set cs. surviving c" by auto
    from Cons.IH[OF this, of ?acc1] g show ?thesis by simp
  qed
qed

text \<open>
  Claim C3. When no element of an enum survives (each one is ignored or is a non-public
  member), \<open>enumDeclaration\<close> leaves the sections of the C header, the implementation and
  the three facade sections as they were. When an element survives, and the enum is wrapped
  at all (not in import mode, not in a non-public part of a class), the scratch string has
  grown beyond its opening brace and the closed declarations are appended: the C one to the
  types section, the C++ one to the facade section in use.
\<close>

theorem C3_enum_flushed_iff_surviving_element:
  "((\<forall>c\<in>set (children n). \<not> surviving c) \<longrightarrow>
      sect_wrappers_types (enumDeclaration e st n) = sect_wrappers_types st \<and>
      sect_wrappers_decl (enumDeclaration e st n) = sect_wrappers_decl st \<and>
      sect_wrappers (enumDeclaration e st n) = sect_wrappers st \<and>
      cxx_wrappers_of (enumDeclaration e st n) = cxx_wrappers_of st) \<and>
   ((\<exists>c\<in>set (children n). surviving c) \<and> \<not> ImportMode st \<and>
    (getCurrentClass st = None \<or> cplus_mode st = PUBLIC) \<longrightarrow>
      (\<exists>enum_prefix cxx_enum_indent bufs0 klass bufs diags.
         enum_open e st n = (enum_prefix, cxx_enum_indent, bufs0, klass) \<and>
         Language_enumDeclaration e enum_prefix cxx_enum_indent (bufs0, diags_of st) (children n) =
           (bufs, diags) \<and>
         length (enum_decl bufs0) < length (enum_decl bufs) \<and>
         sect_wrappers_types (enumDeclaration e st n) =
           sect_wrappers_types st @ enum_close_c n enum_prefix (enum_decl bufs) \<and>
         cxx_wrappers_of (enumDeclaration e st n) =
           enum_flush_cxx st (enum_close_cxx n cxx_enum_indent (cxx_enum_decl bufs))))"
proof (intro conjI impI)
  assume none: "\<forall>c\<in>set (children n). \<not> surviving c"
  show "sect_wrappers_types (enumDeclaration e st n) = sect_wrappers_types st"
    using none
    by (simp add: enumDeclaration_def Language_enumDeclaration_none_surviving Let_def
        split: prod.splits)
  show "sect_wrappers_decl (enumDeclaration e st n) = sect_wrappers_decl st"
    by (simp add: enumDeclaration_def Let_def split: prod.splits)
  show "sect_wrappers (enumDeclaration e st n) = sect_wrappers st"
    by (simp add: enumDeclaration_def Let_def split: prod.splits)
  show "cxx_wrappers_of (enumDeclaration e st n) = cxx_wrappers_of st"
    using none
    by (simp add: enumDeclaration_def Language_enumDeclaration_none_surviving Let_def
        split: prod.splits)
next
  assume a: "(\<exists>c\<in>set (children n). surviving c) \<and> \<not> ImportMode st \<and>
    (getCurrentClass st = None \<or> cplus_mode st = PUBLIC)"
  obtain enum_prefix cxx_enum_indent bufs0 klass
    where o: "enum_open e st n = (enum_prefix, cxx_enum_indent, bufs0, klass)"
    by (cases "enum_open e st n") auto
  obtain bufs diags
    where l: "Language_enumDeclaration e enum_prefix cxx_enum_indent (bufs0, diags_of st)
                (children n) = (bufs, diags)"
    by (cases "Language_enumDeclaration e enum_prefix cxx_enum_indent (bufs0, diags_of st)
                (children n)") auto
  have g: "length (enum_decl bufs0) < length (enum_decl bufs)"
    using Language_enumDeclaration_surviving
      [of "children n" "(bufs0, diags_of st)" e enum_prefix cxx_enum_indent] a l
    by simp
  have "sect_wrappers_types (enumDeclaration e st n) =
           sect_wrappers_types st @ enum_close_c n enum_prefix (enum_decl bufs) \<and>
         cxx_wrappers_of (enumDeclaration e st n) =
           enum_flush_cxx st (enum_close_cxx n cxx_enum_indent (cxx_enum_decl bufs))"
    using a o l g by (auto simp: enumDeclaration_def Let_def)
  with o l g show "\<exists>enum_prefix cxx_enum_indent bufs0 klass bufs diags.
         enum_open e st n = (enum_prefix, cxx_enum_indent, bufs0, klass) \<and>
         Language_enumDeclaration e enum_prefix cxx_enum_indent (bufs0, diags_of st) (children n) =
           (bufs, diags) \<and>
         length (enum_decl bufs0) < length (enum_decl bufs) \<and>
         sect_wrappers_types (enumDeclaration e st n) =
           sect_wrappers_types st @ enum_close_c n enum_prefix (enum_decl bufs) \<and>
         cxx_wrappers_of (enumDeclaration e st n) =
           enum_flush_cxx st (enum_close_cxx n cxx_enum_indent (cxx_enum_decl bufs))"
    by blast
qed


lemmas enum_ex_defs = enumDeclaration_def enum_open_def enumvalueDeclaration_def
  enum_close_c_def enum_close_cxx_def enum_flush_cxx_def gfx_state_def example_state_def
  example_cxx_def example_env_def Color_enum_def Color_ignored_def item_RED_def item_GREEN_def
  Getattr_def Setattr_def GetFlag_def is_initialized_def Printv_def Printv_sect_def cindent_def
  surviving_def Let_def

theorem C3_witness:
  "\<not> surviving (Setattr item_RED ''feature:ignore'' ''1'') \<and>
   \<not> surviving (Setattr item_GREEN ''feature:ignore'' ''1'') \<and>
   sect_wrappers_types (enumDeclaration example_env gfx_state Color_ignored) = [] \<and>
   cxx_wrappers_of (enumDeclaration example_env gfx_state Color_ignored) = example_cxx \<and>
   surviving item_RED \<and> \<not> ImportMode gfx_state \<and> getCurrentClass gfx_state = None \<and>
   sect_wrappers_types (enumDeclaration example_env gfx_state Color_enum) =
     ''enum gfx_Color {'' @ nl @ ''  gfx_RED,'' @ nl @ ''  gfx_GREEN'' @ nl @ ''};'' @ nl @ nl \<and>
   sect_types (cxx_wrappers_of (enumDeclaration example_env gfx_state Color_enum)) =
     Some (''enum Color {'' @ nl @ ''  RED,'' @ nl @ ''  GREEN'' @ nl @ ''};'' @ nl @ nl)"
  using C3_enum_flushed_iff_surviving_element[of Color_ignored example_env gfx_state]
    C3_enum_flushed_iff_surviving_element[of Color_enum example_env gfx_state]
  by (simp add: enum_ex_defs)

section \<open>Prefixes of wrapper names\<close>

lemma prefixed_differs: "p @ ''_'' @ name \<noteq> name"
proof
  assume "p @ ''_'' @ name = name"
  then have "length (p @ ''_'' @ name) = length name" by simp
  then show False by simp
qed

text \<open>
  Claim C4. The name returned by \<open>getFunctionWrapperName\<close> is the given name, without
  prefix, exactly for member functions, constructors and destructors of the current class
  and for variable getters and setters; every other declaration gets
  \<open>prefix_name\<close>, the prefix being the mangled namespace prefix when the parent has
  \<open>feature:nspace\<close> and the name is scoped, else the global namespace prefix when one is
  configured, else the module name.
\<close>

theorem C4_wrapper_name_prefix_policy:
  "(getFunctionWrapperName e st parent n name = name \<longleftrightarrow> spec_no_prefix st n) \<and>
   (\<not> spec_no_prefix st n \<longrightarrow>
      getFunctionWrapperName e st parent n name = spec_prefix e st parent n @ ''_'' @ name)"
proof -
  have a: "\<not> spec_no_prefix st n \<Longrightarrow>
      getFunctionWrapperName e st parent n name = spec_prefix e st parent n @ ''_'' @ name"
    by (auto simp: getFunctionWrapperName_def spec_no_prefix_def spec_prefix_def
        spec_namespace_prefix_def Let_def str_of_def split: option.splits)
  have b: "spec_no_prefix st n \<Longrightarrow> getFunctionWrapperName e st parent n name = name"
    by (auto simp: getFunctionWrapperName_def spec_no_prefix_def)
  show ?thesis using a b prefixed_differs[of "spec_prefix e st parent n" name] by metis
qed

theorem C4_witness:
  "\<not> spec_no_prefix example_state free_add \<and>
   getFunctionWrapperName example_env example_state None free_add ''add'' = ''example_add'' \<and>
   getFunctionWrapperName example_env (example_state\<lparr>ns_prefix := Some ''ns''\<rparr>) None free_add ''add''
     = ''ns_add'' \<and>
   getFunctionWrapperName geo_env (example_state\<lparr>ns_prefix := Some ''ns''\<rparr>) (Some nspace_parent)
     free_add ''add'' = ''geo_add'' \<and>
   spec_no_prefix (example_state\<lparr>getCurrentClass := Some class_Foo\<rparr>) Foo_get \<and>
   getFunctionWrapperName example_env (example_state\<lparr>getCurrentClass := Some class_Foo\<rparr>) None
     Foo_get ''Foo_get'' = ''Foo_get''"
  using C4_wrapper_name_prefix_policy[of example_env example_state None free_add "''add''"]
    C4_wrapper_name_prefix_policy
      [of example_env "example_state\<lparr>ns_prefix := Some ''ns''\<rparr>" None free_add "''add''"]
    C4_wrapper_name_prefix_policy
      [of geo_env "example_state\<lparr>ns_prefix := Some ''ns''\<rparr>" "Some nspace_parent" free_add "''add''"]
    C4_wrapper_name_prefix_policy
      [of example_env "example_state\<lparr>getCurrentClass := Some class_Foo\<rparr>" None Foo_get
          "''Foo_get''"]
  by (simp add: spec_no_prefix_def spec_prefix_def spec_namespace_prefix_def example_state_def
      free_add_def Checkattr_def Getattr_def GetFlag_def geo_env_def example_env_def
      nspace_parent_def Foo_get_def)

section \<open>Functions with variable arguments\<close>

lemmas vararg_defs = functionWrapperCPPSpecific_def overloaded_name_def
  get_wrapper_func_return_type_def getFunctionWrapperName_def get_wrapper_func_proto_def
  c_parm_type_of_def emit_wrapper_func_decl_def vararg_log_def example_env_def
  example_state_def Getattr_def Checkattr_def Setattr_def GetFlag_def str_of_def
  Printv_def Let_def digit_def set_action_def rewrite_action_def

text \<open>
  Claim C5 does not hold of the code: for a function with a vararg parameter the error
  is reported and the prototype is null, but the wrapper is still printed into the
  implementation section and a declaration, cut off at the null prototype, into the
  header section.
\<close>

theorem C5_vararg_function_still_emits:
  "sect_wrappers_decl (functionWrapperCPPSpecific example_env example_state None None vararg_log) =
     ''SWIGIMPORT void example_log'' \<and>
   sect_wrappers (functionWrapperCPPSpecific example_env example_state None None vararg_log) =
     ''SWIGEXPORTC void example_log {arg1 = carg1;'' @ nl @ ''}'' @ nl \<and>
   Swig_error (''Vararg function log not supported.'' @ nl) \<in>
     set (diags_of (functionWrapperCPPSpecific example_env example_state None None vararg_log))"
  by (simp add: vararg_defs)

section \<open>Exception checks in the facade\<close>

text \<open>
  Claim C6. With exception support enabled (the check strings are those that
  \<open>initialize_exceptions\<close> sets), the body written for a member function calls the C wrapper
  directly when the member is marked \<open>noexcept\<close> or has an empty \<open>throw()\<close> list and no
  \<open>throws\<close> attribute, and wraps the call in \<open>swig_check(...)\<close> (for a void member: follows
  it by \<open>swig_check()\<close>) otherwise.
\<close>

theorem C6_exception_check_unless_no_throw:
  assumes "class_node w = Some cn" and "Getattr cn ''sym:name'' = Some c"
      and "Getattr n ''c:inherited_from'' = None" and "\<not> Checkattr n ''storage'' ''friend''"
      and "Checkattr n ''ismember'' ''1''" and "\<not> Checkattr n ''nodeType'' ''constructor''"
      and "\<not> Checkattr n ''nodeType'' ''destructor''" and "\<not> Checkattr n ''kind'' ''variable''"
      and "(if SwigType_type e (Getattr n ''type'') \<noteq> T_VOID then lookup_cxx_ret_type e n
            else set_void_type) = rd"
      and "td_type rd = Some t"
      and "skip_self n (Getattr n ''cplus:staticbase'' = None) = (ps, sd)"
      and "parms_loop e n ps [] [] = Inr (pc, pcall)"
      and "Getattr n ''name'' = Some nm" and "Getattr n ''wrap:name'' = Some wn"
      and "sect_impls cxx = Some buf"
      and "except_check_start cxx = ''swig_check(''" and "except_check_end cxx = '')''"
  shows "sect_impls (fst (snd (emit_member_function e w cxx diags n))) =
           Some (buf @ ''inline '' @ t @ '' '' @ c @ ''::'' @ Swig_scopename_last e nm @
                 ''('' @ pc @ '')'' @ get_const_suffix n @ '' { '' @
                 (let call = wn @ ''('' @
                        method_wparms (Getattr n ''cplus:staticbase'' \<noteq> None) pcall @ '')''
                  in if t = ''void''
                     then (if no_throw n then call else call @ ''; '' @ ''swig_check('' @ '')'')
                     else ''return '' @ wrap_start rd @
                          (if no_throw n then call else ''swig_check('' @ call @ '')'') @
                          wrap_end rd) @
                 ''; }'' @ nl)"
proof -
  have chk: "except_check cxx n = (if no_throw n then ([], []) else (''swig_check('', '')''))"
    using assms(16,17) by (simp add: except_check_def)
  show ?thesis
    using assms(1-15) chk
    by (simp add: emit_member_function_def Let_def emit_method_def method_call_def is_void_def
        Printv_sect_Some)
qed

lemma initialize_exceptions_check:
  "support \<noteq> exceptions_support_disabled \<Longrightarrow>
   except_check_start (initialize_exceptions cxx support) = ''swig_check('' \<and>
   except_check_end (initialize_exceptions cxx support) = '')''"
  by (cases support) (simp_all add: initialize_exceptions_def)

lemmas ex_defs = Foo_wrapper_def class_Foo_def Foo_get_def Foo_next_def enabled_cxx_def
  Getattr_def Checkattr_def example_env_def initialize_exceptions_def skip_self_def
  no_throw_def method_wparms_def get_const_suffix_def append_sep_def

theorem C6_witness:
  "no_throw Foo_get \<and> \<not> no_throw Foo_next \<and>
   sect_impls (fst (snd (emit_member_function example_env Foo_wrapper enabled_cxx [] Foo_get))) =
     Some (''inline int Foo::get() { return Foo_get(swig_self()); }'' @ nl) \<and>
   sect_impls (fst (snd (emit_member_function example_env Foo_wrapper enabled_cxx [] Foo_next))) =
     Some (''inline int Foo::next() { return swig_check(Foo_next(swig_self())); }'' @ nl)"
  using C6_exception_check_unless_no_throw
    [of Foo_wrapper class_Foo "''Foo''" Foo_get example_env
        "\<lparr>td_type = Some ''int'', wrap_start = [], wrap_end = []\<rparr>" "''int''" "[]" "[]"
        "[]" "[]" "''get''" "''Foo_get''" enabled_cxx "[]" "[]"]
    C6_exception_check_unless_no_throw
    [of Foo_wrapper class_Foo "''Foo''" Foo_next example_env
        "\<lparr>td_type = Some ''int'', wrap_start = [], wrap_end = []\<rparr>" "''int''" "[]" "[]"
        "[]" "[]" "''next''" "''Foo_next''" enabled_cxx "[]" "[]"]
  by (simp add: ex_defs)

text \<open>
  The same holds of the constructors of the facade, whose call of the C wrapper sits in the
  initializer of the delegated constructor. (The accessors of variables and the destructor
  are written without any check.)
\<close>

lemma constructor_exception_check:
  assumes "class_node w = Some cn" and "Getattr cn ''sym:name'' = Some c"
      and "Getattr n ''c:inherited_from'' = None" and "\<not> Checkattr n ''storage'' ''friend''"
      and "Checkattr n ''nodeType'' ''constructor''" and "\<not> Checkattr n ''kind'' ''variable''"
      and "td_type (if SwigType_type e (Getattr n ''type'') \<noteq> T_VOID then lookup_cxx_ret_type e n
                    else set_void_type) \<noteq> None"
      and "parms_loop e n (parms n) [] [] = Inr (pc, pcall)"
      and "Getattr n ''wrap:name'' = Some wn"
      and "sect_impls cxx = Some buf"
      and "except_check_start cxx = ''swig_check(''" and "except_check_end cxx = '')''"
  shows "sect_impls (fst (snd (emit_member_function e w cxx diags n))) =
           Some (buf @ ''inline '' @ c @ ''::'' @ c @ ''('' @ pc @ '') : '' @ c @ ''{'' @
                 (if no_throw n then wn @ ''('' @ pcall @ '')''
                  else ''swig_check('' @ wn @ ''('' @ pcall @ '')'' @ '')'') @
                 ''} {}'' @ nl)"
proof -
  have chk: "except_check cxx n = (if no_throw n then ([], []) else (''swig_check('', '')''))"
    using assms(11,12) by (simp add: except_check_def)
  show ?thesis
    using assms(1-10) chk
    by (auto simp: emit_member_function_def Let_def emit_ctor_def skip_self_ctor
        Printv_sect_Some)
qed

section \<open>Moving facade objects\<close>

lemma strip_prefix_append: "strip_prefix p (p @ s) = Some s"
  by (induction p) simp_all

lemma split_at_char: "x \<notin> set a \<Longrightarrow> split_at [x] (a @ x # r) = Some (a, r)"
  by (induction a) auto

lemma special_of_default: "special_of '' = default;'' = Some Defaulted"
  by (simp add: special_of_def)

lemma special_of_move_ctor:
  "special_of
     '' noexcept : swig_self_{obj.swig_self_}, swig_owns_self_{obj.swig_owns_self_} { obj.swig_owns_self_ = false; }'' =
   Some (Defined [Assign This F_self (Lval Obj F_self), Assign This F_owns (Lval Obj F_owns),
                  Assign Obj F_owns (Lit False)])"
  by (simp add: special_of_def init_of_def strip_suffix_def field_of_def expr_of_def
      lval_of_def stmt_of_def)

lemma special_of_move_assign:
  "special_of
     '' noexcept { swig_self_ = obj.swig_self_; swig_owns_self_ = obj.swig_owns_self_; obj.swig_owns_self_ = false; return *this; }'' =
   Some (Defined [Assign This F_self (Lval Obj F_self), Assign This F_owns (Lval Obj F_owns),
                  Assign Obj F_owns (Lit False), Return_this])"
  by (simp add: special_of_def init_of_def strip_suffix_def field_of_def expr_of_def
      lval_of_def stmt_of_def)

lemma parse_moves_lines:
  assumes "CHR 0x0A \<notin> set t1" and "CHR 0x0A \<notin> set t2"
  shows "parse_moves c
           (cindent @ c @ ''('' @ c @ ''&& obj)'' @ t1 @ nl @
            cindent @ c @ ''& operator=('' @ c @ ''&& obj)'' @ t2 @ nl) =
         (case (special_of t1, special_of t2) of
            (Some mc, Some ma) \<Rightarrow> Some (mc, ma)
          | _ \<Rightarrow> None)"
proof -
  define h1 where "h1 = cindent @ c @ ''('' @ c @ ''&& obj)''"
  define h2 where "h2 = cindent @ c @ ''& operator=('' @ c @ ''&& obj)''"
  have eq: "cindent @ c @ ''('' @ c @ ''&& obj)'' @ t1 @ nl @
              cindent @ c @ ''& operator=('' @ c @ ''&& obj)'' @ t2 @ nl =
              h1 @ (t1 @ CHR 0x0A # (h2 @ (t2 @ CHR 0x0A # [])))"
    by (simp add: h1_def h2_def)
  have "parse_moves c (h1 @ (t1 @ CHR 0x0A # (h2 @ (t2 @ CHR 0x0A # [])))) =
        (case (special_of t1, special_of t2) of
           (Some mc, Some ma) \<Rightarrow> Some (mc, ma)
         | _ \<Rightarrow> None)"
    unfolding parse_moves_def h1_def[symmetric] h2_def[symmetric]
    by (simp only: strip_prefix_append split_at_char[OF assms(1)] split_at_char[OF assms(2)]
        option.case prod.case) simp
  then show ?thesis
    unfolding eq .
qed

lemma class_moves_without_base:
  assumes "class_node w = Some cn" and "Getattr cn ''sym:name'' = Some c"
    and "first_base w = None"
  shows "class_moves w =
         Some (Defined [Assign This F_self (Lval Obj F_self), Assign This F_owns (Lval Obj F_owns),
                        Assign Obj F_owns (Lit False)],
               Defined [Assign This F_self (Lval Obj F_self), Assign This F_owns (Lval Obj F_owns),
                        Assign Obj F_owns (Lit False), Return_this])"
proof -
  have "dtor_move w cn (Some []) =
        Some (cindent @ c @ ''('' @ c @ ''&& obj)'' @
              '' noexcept : swig_self_{obj.swig_self_}, swig_owns_self_{obj.swig_owns_self_} { obj.swig_owns_self_ = false; }'' @ nl @
              cindent @ c @ ''& operator=('' @ c @ ''&& obj)'' @
              '' noexcept { swig_self_ = obj.swig_self_; swig_owns_self_ = obj.swig_owns_self_; obj.swig_owns_self_ = false; return *this; }'' @ nl)"
    using assms by (simp add: dtor_move_def Printv_sect_Some)
  moreover have "parse_moves c
          (cindent @ c @ ''('' @ c @ ''&& obj)'' @
              '' noexcept : swig_self_{obj.swig_self_}, swig_owns_self_{obj.swig_owns_self_} { obj.swig_owns_self_ = false; }'' @ nl @
              cindent @ c @ ''& operator=('' @ c @ ''&& obj)'' @
              '' noexcept { swig_self_ = obj.swig_self_; swig_owns_self_ = obj.swig_owns_self_; obj.swig_owns_self_ = false; return *this; }'' @ nl) =
         Some (Defined [Assign This F_self (Lval Obj F_self), Assign This F_owns (Lval Obj F_owns),
                        Assign Obj F_owns (Lit False)],
               Defined [Assign This F_self (Lval Obj F_self), Assign This F_owns (Lval Obj F_owns),
                        Assign Obj F_owns (Lit False), Return_this])"
    by (subst parse_moves_lines) (simp_all add: special_of_move_ctor special_of_move_assign)
  ultimately show ?thesis
    using assms by (simp add: class_moves_def)
qed

lemma class_moves_with_base:
  assumes "class_node w = Some cn" and "Getattr cn ''sym:name'' = Some c"
    and "first_base w = Some fb"
  shows "class_moves w = Some (Defaulted, Defaulted)"
proof -
  have "dtor_move w cn (Some []) =
        Some (cindent @ c @ ''('' @ c @ ''&& obj)'' @ '' = default;'' @ nl @
              cindent @ c @ ''& operator=('' @ c @ ''&& obj)'' @ '' = default;'' @ nl)"
    using assms by (simp add: dtor_move_def Printv_sect_Some)
  moreover have "parse_moves c
          (cindent @ c @ ''('' @ c @ ''&& obj)'' @ '' = default;'' @ nl @
           cindent @ c @ ''& operator=('' @ c @ ''&& obj)'' @ '' = default;'' @ nl) =
         Some (Defaulted, Defaulted)"
    by (subst parse_moves_lines) (simp_all add: special_of_default)
  ultimately show ?thesis
    using assms by (simp add: class_moves_def)
qed

lemma exec_move_ctor:
  "this \<noteq> obj \<Longrightarrow>
   exec_stmts [Assign This F_self (Lval Obj F_self), Assign This F_owns (Lval Obj F_owns),
               Assign Obj F_owns (Lit False)] s this obj =
   Some (s(this := s obj, obj := (s obj)\<lparr>swig_owns_self := False\<rparr>))"
  by (auto simp add: store_member_def eval_expr_def address_def fun_eq_iff)

lemma exec_move_assign:
  "this \<noteq> obj \<Longrightarrow>
   exec_stmts [Assign This F_self (Lval Obj F_self), Assign This F_owns (Lval Obj F_owns),
               Assign Obj F_owns (Lit False), Return_this] s this obj =
   Some (s(this := s obj, obj := (s obj)\<lparr>swig_owns_self := False\<rparr>))"
  by (auto simp add: store_member_def eval_expr_def address_def fun_eq_iff)

lemma facade_name_Some:
  "facade_name w \<noteq> None \<Longrightarrow> \<exists>cn c. class_node w = Some cn \<and> Getattr cn ''sym:name'' = Some c"
  by (cases "class_node w") (auto simp add: facade_name_def)

lemma derives_from_base: "derives_from w ws \<Longrightarrow> \<exists>fb. first_base w = Some fb"
  by (cases "first_base w") (simp_all add: derives_from_def)

lemma run_moves_chain:
  "facade_chain ws \<Longrightarrow> this \<noteq> obj \<Longrightarrow>
   run_move_ctor ws s this obj =
     Some (s(this := s obj, obj := (s obj)\<lparr>swig_owns_self := False\<rparr>)) \<and>
   run_move_assign ws s this obj =
     Some (s(this := s obj, obj := (s obj)\<lparr>swig_owns_self := False\<rparr>))"
proof (induction ws rule: facade_chain.induct)
  case 1
  then show ?case by simp
next
  case (2 w)
  then obtain cn c where "class_node w = Some cn" "Getattr cn ''sym:name'' = Some c"
    using facade_name_Some[of w] by auto
  with 2 have "class_moves w =
      Some (Defined [Assign This F_self (Lval Obj F_self), Assign This F_owns (Lval Obj F_owns),
                     Assign Obj F_owns (Lit False)],
            Defined [Assign This F_self (Lval Obj F_self), Assign This F_owns (Lval Obj F_owns),
                     Assign Obj F_owns (Lit False), Return_this])"
    by (simp add: class_moves_without_base)
  then show ?case
    by (simp only: run_move_ctor.simps run_move_assign.simps option.case prod.case
        special_member.case exec_move_ctor[OF 2(2)] exec_move_assign[OF 2(2)])
next
  case (3 w w1 ws)
  then obtain cn c where "class_node w = Some cn" "Getattr cn ''sym:name'' = Some c"
    using facade_name_Some[of w] by auto
  moreover obtain fb where "first_base w = Some fb"
    using 3 derives_from_base[of w "w1 # ws"] by auto
  ultimately have "class_moves w = Some (Defaulted, Defaulted)"
    by (rule class_moves_with_base)
  with 3 show ?case by simp
qed

text \<open>
  Claim C7, as amended. The move operations are those that \<open>dtor_move\<close> writes, read from
  its text. For a class without base and for a class that reaches one through its bases,
  the move constructor and the move assignment between two distinct objects run to an end;
  afterwards the destination holds the pointer and the ownership flag that the source had,
  the flag of the source is false, and the two do not both own the pointer.
\<close>

theorem C7_move_between_distinct_objects:
  assumes "facade_chain ws" and "this \<noteq> obj"
  shows "\<exists>s1 s2.
           run_move_ctor ws s this obj = Some s1 \<and>
           run_move_assign ws s this obj = Some s2 \<and>
           swig_self (s1 this) = swig_self (s obj) \<and>
           swig_owns_self (s1 this) = swig_owns_self (s obj) \<and>
           \<not> swig_owns_self (s1 obj) \<and>
           \<not> (swig_owns_self (s1 this) \<and> swig_owns_self (s1 obj)) \<and>
           swig_self (s2 this) = swig_self (s obj) \<and>
           swig_owns_self (s2 this) = swig_owns_self (s obj) \<and>
           \<not> swig_owns_self (s2 obj) \<and>
           \<not> (swig_owns_self (s2 this) \<and> swig_owns_self (s2 obj))"
  using run_moves_chain[OF assms, of s] assms(2) by simp

lemma facade_E_A_chain: "facade_chain [facade_E, facade_A]"
  by (simp add: facade_E_def facade_A_def cxx_class_wrapper_ctor_def example_cxx_def
      is_initialized_def class_E_def class_A_def member_foo_def open_class_def
      facade_name_def derives_from_def Getattr_def Checkattr_def Let_def Printv_sect_def
      Printv_def)

theorem C7_witness:
  "facade_chain [facade_E, facade_A] \<and> (1::nat) \<noteq> 2 \<and>
   (\<exists>s1 s2.
      run_move_ctor [facade_E, facade_A] two_objects 1 2 = Some s1 \<and>
      run_move_assign [facade_E, facade_A] two_objects 1 2 = Some s2 \<and>
      swig_self (s1 1) = 7 \<and> swig_owns_self (s1 1) \<and> \<not> swig_owns_self (s1 2) \<and>
      swig_self (s2 1) = 7 \<and> swig_owns_self (s2 1) \<and> \<not> swig_owns_self (s2 2)) \<and>
   swig_self (two_objects 1) = 3 \<and> \<not> swig_owns_self (two_objects 1)"
  using C7_move_between_distinct_objects[OF facade_E_A_chain, of 1 2 two_objects]
    facade_E_A_chain
  by (auto simp add: two_objects_def
      simp del: run_move_ctor.simps run_move_assign.simps facade_chain.simps)

text \<open>
  Claim C7 as stated fails when an object of a class without base is move-assigned to
  itself: source and destination are then one object, which owned its pointer before and
  whose flag is false afterwards.
\<close>

theorem C7_self_move_counterexample:
  "swig_owns_self (two_objects 2) \<and>
   map_option (\<lambda>s. swig_owns_self (s 2)) (run_move_assign [facade_A] two_objects 2 2) =
     Some False"
proof -
  have "class_node facade_A = Some class_A \<and> first_base facade_A = None"
    by (simp add: facade_A_def cxx_class_wrapper_ctor_def example_cxx_def is_initialized_def
        class_A_def open_class_def Let_def)
  moreover have "Getattr class_A ''sym:name'' = Some ''A''"
    by (simp add: class_A_def Getattr_def)
  ultimately have "class_moves facade_A =
      Some (Defined [Assign This F_self (Lval Obj F_self), Assign This F_owns (Lval Obj F_owns),
                     Assign Obj F_owns (Lit False)],
            Defined [Assign This F_self (Lval Obj F_self), Assign This F_owns (Lval Obj F_owns),
                     Assign Obj F_owns (Lit False), Return_this])"
    using class_moves_without_base[of facade_A class_A "''A''"] by simp
  then show ?thesis
    by (simp add: two_objects_def store_member_def eval_expr_def address_def)
qed

section \<open>Copy constructor of the facade\<close>

lemma emit_member_function_has_copy_ctor:
  assumes "class_node w = Some cn"
      and "emit_member_function e w cxx diags n = (w1, cxx1, diags1)"
  shows "has_copy_ctor w1 = (has_copy_ctor w \<or> wrapped_copy_ctor e n)"
  using assms
  by (auto simp: emit_member_function_def wrapped_copy_ctor_def Let_def skip_self_ctor
        set_void_type_def
      split: option.splits if_splits prod.splits sum.splits)

lemma emit_members_has_copy_ctor:
  assumes "class_node w = Some cn"
      and "emit_members e w cxx diags ns = (w1, cxx1, diags1)"
  shows "has_copy_ctor w1 = (has_copy_ctor w \<or> (\<exists>m\<in>set ns. wrapped_copy_ctor e m))"
  using assms
proof (induction ns arbitrary: w cxx diags)
  case Nil
  then show ?case by simp
next
  case (Cons n ns)
  obtain wa cxxa diagsa where s: "emit_member_function e w cxx diags n = (wa, cxxa, diagsa)"
    by (cases "emit_member_function e w cxx diags n") auto
  with Cons.prems have r: "emit_members e wa cxxa diagsa ns = (w1, cxx1, diags1)" by simp
  have c: "class_node wa = Some cn"
    using emit_member_function_class_node[OF s] Cons.prems(1) by simp
  have "has_copy_ctor wa = (has_copy_ctor w \<or> wrapped_copy_ctor e n)"
    using emit_member_function_has_copy_ctor[OF Cons.prems(1) s] .
  with Cons.IH[OF c r] show ?case by auto
qed

lemma ctor_has_copy_ctor:
  "cxx_class_wrapper_ctor cxx diags n = (w, cxx1, diags1) \<Longrightarrow> \<not> has_copy_ctor w"
  by (auto simp: cxx_class_wrapper_ctor_def split: if_splits option.splits prod.splits bool.splits)

text \<open>
  Claim C8. When the declaration of a facade class is closed, the deleted copy constructor
  \<open>C(C const&) = delete;\<close> is written between the constructor from the C pointer and the
  deleted assignment exactly when none of the members visited since the class was opened
  was a wrapped copy constructor; when one was, nothing is written at that place.
\<close>

theorem C8_copy_ctor_deleted_iff_no_wrapped_copy_ctor:
  assumes "cxx_class_wrapper_ctor cxx diags n = (w, cxx1, diags1)"
      and "class_node w = Some cn"
      and "emit_members e w cxx1 diags1 members = (w2, cxx2, diags2)"
  shows "sect_decls (cxx_class_wrapper_dtor e w2 cxx2) =
           dtor_swig_self e w2 cn (dtor_move w2 cn (dtor_copy_assign cn
             ((if \<exists>m\<in>set members. wrapped_copy_ctor e m then (\<lambda>buf. buf)
               else (\<lambda>buf. Printv_sect buf
                       [Some cindent, Getattr cn ''sym:name'', Some ''('',
                        Getattr cn ''sym:name'', Some ('' const&) = delete;'' @ nl)]))
              (dtor_ctor_from_ptr e w2 cn (sect_decls cxx2)))))"
proof -
  have c2: "class_node w2 = Some cn"
    using emit_members_class_node[OF assms(3)] assms(2) by simp
  have "has_copy_ctor w2 = (\<exists>m\<in>set members. wrapped_copy_ctor e m)"
    using emit_members_has_copy_ctor[OF assms(2) assms(3)] ctor_has_copy_ctor[OF assms(1)]
    by simp
  then show ?thesis
    using c2 by (simp add: cxx_class_wrapper_dtor_def dtor_copy_ctor_def Let_def)
qed

lemma Foo_opened_class_node: "class_node (fst Foo_opened) = Some class_Foo"
  by (simp add: Foo_opened_def cxx_class_wrapper_ctor_def is_initialized_def example_cxx_def
      class_Foo_def)

lemma Foo_copy_ctor_wrapped: "wrapped_copy_ctor example_env Foo_copy_ctor"
  by (simp add: wrapped_copy_ctor_def Foo_copy_ctor_def example_env_def Getattr_def
      Checkattr_def Let_def parm_name_def)

theorem C8_witness:
  "class_node (fst Foo_opened) = Some class_Foo \<and>
   (\<exists>m\<in>set [Foo_copy_ctor]. wrapped_copy_ctor example_env m) \<and>
   sect_decls (cxx_class_wrapper_dtor example_env (fst Foo_visited) (fst (snd Foo_visited))) =
     dtor_swig_self example_env (fst Foo_visited) class_Foo
       (dtor_move (fst Foo_visited) class_Foo
         (dtor_copy_assign class_Foo
           (dtor_ctor_from_ptr example_env (fst Foo_visited) class_Foo
              (sect_decls (fst (snd Foo_visited))))))"
proof -
  have a: "cxx_class_wrapper_ctor example_cxx [] class_Foo =
      (fst Foo_opened, fst (snd Foo_opened), snd (snd Foo_opened))"
    by (simp add: Foo_opened_def)
  have c: "emit_members example_env (fst Foo_opened) (fst (snd Foo_opened))
      (snd (snd Foo_opened)) [Foo_copy_ctor] =
      (fst Foo_visited, fst (snd Foo_visited), snd (snd Foo_visited))"
    by (simp add: Foo_visited_def)
  show ?thesis
    using C8_copy_ctor_deleted_iff_no_wrapped_copy_ctor[OF a Foo_opened_class_node c]
      Foo_opened_class_node Foo_copy_ctor_wrapped
    by simp
qed

section \<open>Traversing a tree twice\<close>












section \<open>Copy assignment of the facade\<close>

lemma dtor_ctor_from_ptr_Some:
  "\<exists>t. dtor_ctor_from_ptr e w cn (Some d) = Some (d @ t)"
  by (simp add: dtor_ctor_from_ptr_def Let_def Printv_sect_Some split: option.splits)

lemma dtor_copy_ctor_Some:
  "\<exists>t. dtor_copy_ctor w cn (Some d) = Some (d @ t)"
  by (simp add: dtor_copy_ctor_def Let_def Printv_sect_Some)

lemma dtor_move_Some:
  "\<exists>t. dtor_move w cn (Some d) = Some (d @ t)"
  by (simp add: dtor_move_def Let_def Printv_sect_Some)

lemma dtor_swig_self_Some:
  "\<exists>t. dtor_swig_self e w cn (Some d) = Some (d @ t)"
  by (simp add: dtor_swig_self_def Let_def Printv_sect_Some split: option.splits)

lemma dtor_copy_assign_named:
  "Getattr cn ''sym:name'' = Some c \<Longrightarrow>
   dtor_copy_assign cn (Some d) =
     Some (d @ cindent @ c @ ''& operator=('' @ c @ '' const&) = delete;'' @ nl)"
  by (simp add: dtor_copy_assign_def Let_def Printv_sect_Some)

text \<open>
  Claim C10. For every facade class that is generated (the class node is set, the class has
  a name and the declarations section exists), closing the class writes the deleted
  copy assignment \<open>C& operator=(C const&) = delete;\<close> into the declarations, whatever the
  value of the copy-constructor flag: a wrapped copy constructor does not bring the
  assignment back.
\<close>

theorem C10_copy_assignment_always_deleted:
  assumes "class_node w = Some cn"
      and "Getattr cn ''sym:name'' = Some c"
      and "sect_decls cxx = Some d"
  shows "\<exists>pre post. sect_decls (cxx_class_wrapper_dtor e w cxx) =
           Some (pre @ (cindent @ c @ ''& operator=('' @ c @ '' const&) = delete;'' @ nl) @ post)"
proof -
  obtain t1 where s1: "dtor_ctor_from_ptr e w cn (Some d) = Some (d @ t1)"
    using dtor_ctor_from_ptr_Some by blast
  obtain t2 where s2: "dtor_copy_ctor w cn (Some (d @ t1)) = Some ((d @ t1) @ t2)"
    using dtor_copy_ctor_Some by blast
  let ?line = "cindent @ c @ ''& operator=('' @ c @ '' const&) = delete;'' @ nl"
  have s3: "dtor_copy_assign cn (Some ((d @ t1) @ t2)) = Some (((d @ t1) @ t2) @ ?line)"
    using dtor_copy_assign_named[OF assms(2)] by simp
  obtain t4 where s4: "dtor_move w cn (Some (((d @ t1) @ t2) @ ?line)) =
      Some ((((d @ t1) @ t2) @ ?line) @ t4)"
    using dtor_move_Some by blast
  obtain t5 where s5: "dtor_swig_self e w cn (Some ((((d @ t1) @ t2) @ ?line) @ t4)) =
      Some (((((d @ t1) @ t2) @ ?line) @ t4) @ t5)"
    using dtor_swig_self_Some by blast
  have "sect_decls (cxx_class_wrapper_dtor e w cxx) =
      Some (((d @ t1) @ t2) @ ?line @ (t4 @ t5))"
    using assms(1,3) s1 s2 s3 s4 s5 by (simp add: cxx_class_wrapper_dtor_def)
  then show ?thesis by blast
qed

theorem C10_witness:
  "\<exists>pre post. sect_decls (cxx_class_wrapper_dtor example_env
       \<lparr>class_node = Some class_Foo, first_base = None, has_copy_ctor = True\<rparr> example_cxx) =
     Some (pre @ (cindent @ ''Foo'' @ ''& operator=('' @ ''Foo'' @ '' const&) = delete;'' @ nl) @ post)"
  using C10_copy_assignment_always_deleted
    [of "\<lparr>class_node = Some class_Foo, first_base = None, has_copy_ctor = True\<rparr>"
        class_Foo "''Foo''" example_cxx "[]" example_env]
  by (simp add: class_Foo_def Getattr_def example_cxx_def)

end
